theory Spec2Isabelle
  imports Main
begin

section \<open>JavaScript values and strings\<close>

text \<open>
  The feeds are JSON, and the code reads their fields without checking types, so a field is
  modelled as a JavaScript value. Numbers are the integers (timestamps, identifiers,
  the literal \<open>0\<close>); \<open>JObject s\<close> is any object or function, carrying the text
  \<open>String()\<close> gives it.

  A string is the list of its UTF-16 code units, each a number from 0 to 65535: the feeds
  carry any text, and the tables of unnamed/part_000 and js/app.js hold units above 255.
  \<open>js\<close> gives the units of a literal written in ASCII. The strings that the program
  builds from ASCII literals and never compares with text of a feed (URLs, header names
  and values, priorities, colours) are kept as character lists.
\<close>

type_synonym jsstring = "int list"

definition codeUnit :: "char \<Rightarrow> int" where
  "codeUnit c = of_char c"

definition js :: "string \<Rightarrow> jsstring" where
  "js s = map codeUnit s"

datatype jsval =
    JUndefined
  | JNull
  | JBool bool
  | JNum int
  | JStr jsstring
  | JObject jsstring

datatype error =
    TypeError
  | NetworkError
  | ParseError
  | FormatError
  | DataError
  | DataCloneError
  | StorageError
  | UnknownType

text \<open>Truthiness, as \<open>!x\<close>, \<open>x || y\<close> and \<open>if (x)\<close> read it.\<close>

fun truthy :: "jsval \<Rightarrow> bool" where
  "truthy JUndefined = False"
| "truthy JNull = False"
| "truthy (JBool b) = b"
| "truthy (JNum n) = (n \<noteq> 0)"
| "truthy (JStr s) = (s \<noteq> [])"
| "truthy (JObject s) = True"

definition js_or :: "jsval \<Rightarrow> jsval \<Rightarrow> jsval" where
  "js_or a b = (if truthy a then a else b)"

definition digitChar :: "int \<Rightarrow> char" where
  "digitChar d = char_of (48 + d)"

text \<open>The decimal digits of a number that is not negative.\<close>

function decimal :: "int \<Rightarrow> string" where
  "decimal n =
     (if n < 10 then [digitChar n] else decimal (n div 10) @ [digitChar (n mod 10)])"
  by pat_completeness auto
termination
  by (relation "measure nat") auto

definition intToString :: "int \<Rightarrow> string" where
  "intToString i = (if i < 0 then CHR ''-'' # decimal (- i) else decimal i)"

text \<open>String conversion, as a template literal and \<open>textContent\<close> apply it.\<close>

fun toStr :: "jsval \<Rightarrow> jsstring" where
  "toStr JUndefined = js ''undefined''"
| "toStr JNull = js ''null''"
| "toStr (JBool b) = js (if b then ''true'' else ''false'')"
| "toStr (JNum n) = js (intToString n)"
| "toStr (JStr s) = s"
| "toStr (JObject s) = s"

text \<open>
  \<open>toLowerCase\<close> on the letters of Basic Latin and Latin-1, and on the five units
  outside them whose lower case lies in those ranges (the dotted capital I, the capital Y
  with diaeresis, the capital sharp S, the Kelvin sign and the Angstrom sign). The
  letters of other alphabets are left as they are: their lower case is no unit of any
  table below, and no result is built from lowered text.
\<close>

definition lowerUnit :: "int \<Rightarrow> jsstring" where
  "lowerUnit c =
     (if (65 \<le> c \<and> c \<le> 90) \<or> (192 \<le> c \<and> c \<le> 222 \<and> c \<noteq> 215) then [c + 32]
      else if c = 0x130 then [105, 0x307]
      else if c = 0x178 then [255]
      else if c = 0x1E9E then [223]
      else if c = 0x212A then [107]
      else if c = 0x212B then [229]
      else [c])"

definition toLowerCase :: "jsstring \<Rightarrow> jsstring" where
  "toLowerCase s = concat (map lowerUnit s)"

fun startsWith :: "'a list \<Rightarrow> 'a list \<Rightarrow> bool" where
  "startsWith s [] = True"
| "startsWith [] (k # ks) = False"
| "startsWith (c # cs) (k # ks) = (c = k \<and> startsWith cs ks)"

text \<open>\<open>s.includes(k)\<close>: \<open>k\<close> occurs in \<open>s\<close> as a contiguous run.\<close>

fun includes_str :: "'a list \<Rightarrow> 'a list \<Rightarrow> bool" where
  "includes_str [] k = (k = [])"
| "includes_str (c # cs) k = (startsWith (c # cs) k \<or> includes_str cs k)"

text \<open>The white space and line terminators that \<open>trim\<close> and \<open>parseInt\<close> skip.\<close>

definition isWhitespace :: "int \<Rightarrow> bool" where
  "isWhitespace c =
     ((9 \<le> c \<and> c \<le> 13) \<or> c = 32 \<or> c = 160 \<or> c = 0x1680 \<or> (0x2000 \<le> c \<and> c \<le> 0x200A)
      \<or> c = 0x2028 \<or> c = 0x2029 \<or> c = 0x202F \<or> c = 0x205F \<or> c = 0x3000 \<or> c = 0xFEFF)"

definition trim :: "jsstring \<Rightarrow> jsstring" where
  "trim s = rev (dropWhile isWhitespace (rev (dropWhile isWhitespace s)))"

text \<open>\<open>s.split(',')\<close>: the pieces between commas; never the empty list.\<close>

fun splitComma :: "jsstring \<Rightarrow> jsstring list" where
  "splitComma [] = [[]]"
| "splitComma (c # cs) =
     (case splitComma cs of
        [] \<Rightarrow> [[c]]
      | p # ps \<Rightarrow> if c = codeUnit CHR '','' then [] # p # ps else (c # p) # ps)"

section \<open>Utils.sanitizeHTML (js/app.js)\<close>

text \<open>
  \<open>div.textContent = str; div.innerHTML\<close> serialises a text node: the three markup
  characters and the no-break space become entities.
\<close>

definition escapeUnit :: "int \<Rightarrow> jsstring" where
  "escapeUnit c =
     (if c = codeUnit CHR ''&'' then js ''&amp;''
      else if c = codeUnit CHR ''<'' then js ''&lt;''
      else if c = codeUnit CHR ''>'' then js ''&gt;''
      else if c = 160 then js ''&nbsp;''
      else [c])"

definition innerHTML :: "jsstring \<Rightarrow> jsstring" where
  "innerHTML s = concat (map escapeUnit s)"

text \<open>\<open>.replace(/[<>]/g, '')\<close>\<close>

definition stripAngles :: "jsstring \<Rightarrow> jsstring" where
  "stripAngles s = filter (\<lambda>c. c \<noteq> codeUnit CHR ''<'' \<and> c \<noteq> codeUnit CHR ''>'') s"

definition sanitizeHTML :: "jsval \<Rightarrow> jsstring" where
  "sanitizeHTML str = (if \<not> truthy str then [] else stripAngles (innerHTML (toStr str)))"

section \<open>Severity classification (DataSyncManager.calculateSeverity)\<close>

record severity =
  level :: nat
  priority :: string
  color :: string

text \<open>
  Where a Swedish letter was meant, unnamed/part_000 and js/app.js hold two characters,
  the bytes of the letter's UTF-8 form read as Mac OS Roman: U+221A U+2022 for the a with
  ring, U+221A U+00A7 for the a with diaeresis, U+221A U+2202 for the o with diaeresis
  and U+221A U+00F1 for the capital O with diaeresis. The literals of the tables below are
  those of the files, unit for unit; text that spells the letter itself is not equal to
  them.
\<close>

definition aring :: jsstring where "aring = [0x221A, 0x2022]"

definition auml :: jsstring where "auml = [0x221A, 0xA7]"

definition ouml :: jsstring where "ouml = [0x221A, 0x2202]"

definition Ouml :: jsstring where "Ouml = [0x221A, 0xF1]"

text \<open>
  \<open>severityMap[type]\<close> is a property read on an object literal: a key of the literal
  gives its entry, a member name of \<open>Object.prototype\<close> gives that (truthy) member,
  anything else gives \<open>undefined\<close>.
\<close>

datatype sev_lookup = SevEntry severity | Inherited jsstring

definition objectPrototypeKeys :: "jsstring list" where
  "objectPrototypeKeys =
     map js
       [''constructor'', ''__defineGetter__'', ''__defineSetter__'', ''hasOwnProperty'',
        ''__lookupGetter__'', ''__lookupSetter__'', ''isPrototypeOf'',
        ''propertyIsEnumerable'', ''toString'', ''valueOf'', ''__proto__'',
        ''toLocaleString'']"

text \<open>
  The text of such a member: \<open>__proto__\<close> is \<open>Object.prototype\<close> itself, the
  others are built-in functions, printed as V8 prints them.
\<close>

definition memberText :: "jsstring \<Rightarrow> jsstring" where
  "memberText name =
     (if name = js ''__proto__'' then js ''[object Object]''
      else if name = js ''constructor'' then js ''function Object() { [native code] }''
      else js ''function '' @ name @ js ''() { [native code] }'')"

definition severityDefault :: severity where
  "severityDefault = \<lparr>level = 1, priority = ''low'', color = ''#6b7280''\<rparr>"

definition severityMap :: "(jsstring \<times> severity) list" where
  "severityMap =
     [(js ''Olycka'', \<lparr>level = 3, priority = ''high'', color = ''#dc2626''\<rparr>),
      (js ''Brand'', \<lparr>level = 4, priority = ''critical'', color = ''#b91c1c''\<rparr>),
      (js ''R'' @ aring @ js ''n'', \<lparr>level = 4, priority = ''critical'', color = ''#991b1b''\<rparr>),
      (js ''V'' @ aring @ js ''ld'', \<lparr>level = 4, priority = ''critical'', color = ''#7f1d1d''\<rparr>),
      (js ''Skottlossning'', \<lparr>level = 5, priority = ''critical'', color = ''#450a0a''\<rparr>),
      (js ''Trafikolycka'', \<lparr>level = 2, priority = ''medium'', color = ''#ea580c''\<rparr>),
      (js ''Misshandel'', \<lparr>level = 3, priority = ''high'', color = ''#c2410c''\<rparr>),
      (js ''St'' @ ouml @ js ''ld'', \<lparr>level = 2, priority = ''medium'', color = ''#a3a3a3''\<rparr>),
      (js ''default'', severityDefault)]"

definition criticalKeywords :: "jsstring list" where
  "criticalKeywords =
     [js ''skott'', js ''d'' @ ouml @ js ''d'', js ''livsfara'', js ''explosion'',
      js ''gisslan'']"

definition highKeywords :: "jsstring list" where
  "highKeywords = [js ''v'' @ aring @ js ''ld'', js ''kniv'', js ''hot'', js ''misshandel'']"

definition severityCritical :: severity where
  "severityCritical = \<lparr>level = 5, priority = ''critical'', color = ''#450a0a''\<rparr>"

definition severityHigh :: severity where
  "severityHigh = \<lparr>level = 4, priority = ''critical'', color = ''#7f1d1d''\<rparr>"

text \<open>A default parameter (\<open>type = ''\<close>) replaces \<open>undefined\<close> only.\<close>

definition defaultParam :: "jsval \<Rightarrow> jsval \<Rightarrow> jsval" where
  "defaultParam v d = (if v = JUndefined then d else v)"

definition severityLookup :: "jsstring \<Rightarrow> sev_lookup" where
  "severityLookup ty =
     (case map_of severityMap ty of
        Some s \<Rightarrow> SevEntry s
      | None \<Rightarrow> if ty \<in> set objectPrototypeKeys then Inherited ty
                else SevEntry severityDefault)"

text \<open>
  \<open>title.toLowerCase()\<close> and \<open>type.toLowerCase()\<close> raise a TypeError on anything
  but a string; \<open>lowerType\<close> is computed and never read.
\<close>

definition calculateSeverity :: "jsval \<Rightarrow> jsval \<Rightarrow> error + sev_lookup" where
  "calculateSeverity type0 title0 =
     (case defaultParam title0 (JStr []) of
        JStr titleStr \<Rightarrow>
          (case defaultParam type0 (JStr []) of
             JStr ty \<Rightarrow>
               (let lowerTitle = toLowerCase titleStr in
                if list_ex (\<lambda>keyword. includes_str lowerTitle keyword) criticalKeywords
                then Inr (SevEntry severityCritical)
                else if list_ex (\<lambda>keyword. includes_str lowerTitle keyword) highKeywords
                then Inr (SevEntry severityHigh)
                else Inr (severityLookup ty))
           | _ \<Rightarrow> Inl TypeError)
      | _ \<Rightarrow> Inl TypeError)"

section \<open>Feed items and processed events (DataSyncManager.processEventData)\<close>

text \<open>
  An item of the events feed. \<open>r_datetimeMs\<close> is what
  \<open>new Date(datetime).getTime()\<close> gives for the item's \<open>datetime\<close>, with \<open>None\<close> for
  NaN: date parsing is the platform's, so the item carries its result.
\<close>

record raw_location =
  loc_name :: jsval
  gps :: jsval

record raw_event =
  r_id :: jsval
  r_datetime :: jsval
  r_datetimeMs :: "int option"
  r_name :: jsval
  r_title :: jsval
  r_summary :: jsval
  r_description :: jsval
  r_type :: jsval
  r_location :: "raw_location option"

text \<open>
  The processed event, without \<open>city\<close>, \<open>address\<close>, \<open>url\<close>, \<open>rawData\<close> and
  \<open>synced\<close>: the first two come out of regular expressions, the others are copies, and
  nothing below reads them.
\<close>

record event =
  ev_id :: jsval
  timestamp :: jsval
  timeMs :: "int option"
  title :: jsval
  description :: jsval
  ev_type :: jsval
  lat :: jsval
  lng :: jsval
  exactLocation :: bool
  severityInfo :: sev_lookup

definition unknownEventTitle :: jsstring where
  "unknownEventTitle = js ''Ok'' @ auml @ js ''nd h'' @ auml @ js ''ndelse''"

definition otherType :: jsstring where
  "otherType = Ouml @ js ''vrigt''"

text \<open>
  \<open>rawEvent.location?.gps?.split(',')[i]?.trim() || 0\<close>. The optional chain stops at
  \<open>undefined\<close> and \<open>null\<close> only: any other value without a \<open>split\<close> method raises.
\<close>

definition gpsPart :: "raw_location option \<Rightarrow> nat \<Rightarrow> error + jsval" where
  "gpsPart loc i =
     (case loc of
        None \<Rightarrow> Inr (JNum 0)
      | Some l \<Rightarrow>
          (case gps l of
             JUndefined \<Rightarrow> Inr (JNum 0)
           | JNull \<Rightarrow> Inr (JNum 0)
           | JStr g \<Rightarrow>
               (let parts = splitComma g in
                if i < length parts then Inr (js_or (JStr (trim (parts ! i))) (JNum 0))
                else Inr (JNum 0))
           | _ \<Rightarrow> Inl TypeError))"

text \<open>
  \<open>extractCity(rawEvent.location?.name || '')\<close> calls \<open>match\<close> on its argument unless
  it is falsy: a truthy value that is no string raises.
\<close>

definition extractCityRaises :: "raw_location option \<Rightarrow> bool" where
  "extractCityRaises loc =
     (case loc of
        None \<Rightarrow> False
      | Some l \<Rightarrow> (case loc_name l of JStr s \<Rightarrow> False | v \<Rightarrow> truthy v))"

text \<open>
  \<open>rawEvent.id || Utils.generateId(...)\<close>: the class \<open>Utils\<close> of js/app.js has no
  \<open>generateId\<close>, so an item with a falsy \<open>id\<close> raises a TypeError.
\<close>

definition processEventData :: "raw_event \<Rightarrow> error + event" where
  "processEventData rawEvent =
     (if \<not> truthy (r_id rawEvent) then Inl TypeError
      else if extractCityRaises (r_location rawEvent) then Inl TypeError
      else
        (case gpsPart (r_location rawEvent) 0 of
           Inl e \<Rightarrow> Inl e
         | Inr la \<Rightarrow>
             (case gpsPart (r_location rawEvent) 1 of
                Inl e \<Rightarrow> Inl e
              | Inr ln \<Rightarrow>
                  (case calculateSeverity (r_type rawEvent) (r_name rawEvent) of
                     Inl e \<Rightarrow> Inl e
                   | Inr sev \<Rightarrow>
                       Inr \<lparr>ev_id = r_id rawEvent,
                            timestamp = r_datetime rawEvent,
                            timeMs = r_datetimeMs rawEvent,
                            title = js_or (r_name rawEvent) (JStr unknownEventTitle),
                            description = js_or (r_summary rawEvent) (JStr []),
                            ev_type = js_or (r_type rawEvent) (JStr otherType),
                            lat = la,
                            lng = ln,
                            exactLocation =
                              (case r_location rawEvent of
                                 None \<Rightarrow> False
                               | Some l \<Rightarrow> truthy (gps l)),
                            severityInfo = sev\<rparr>))))"

section \<open>Deduplication (DataSyncManager.deduplicateEvents)\<close>

text \<open>The composite key is the template literal \<open>`${timestamp}-${title}-${lat}-${lng}`\<close>.\<close>

definition compositeKey :: "jsval \<Rightarrow> jsval \<Rightarrow> jsval \<Rightarrow> jsval \<Rightarrow> jsstring" where
  "compositeKey ts ti la ln =
     toStr ts @ js ''-'' @ toStr ti @ js ''-'' @ toStr la @ js ''-'' @ toStr ln"

definition dedupKey :: "('a event_scheme) \<Rightarrow> jsstring" where
  "dedupKey e = compositeKey (timestamp e) (title e) (lat e) (lng e)"

text \<open>The filter with its \<open>seen\<close> map, threaded through the list.\<close>

fun dedupFrom :: "(jsstring \<rightharpoonup> bool) \<Rightarrow> event list \<Rightarrow> event list" where
  "dedupFrom seen [] = []"
| "dedupFrom seen (e # es) =
     (if seen (dedupKey e) \<noteq> None then dedupFrom seen es
      else e # dedupFrom (seen(dedupKey e \<mapsto> True)) es)"

definition deduplicateEvents :: "event list \<Rightarrow> event list" where
  "deduplicateEvents events = dedupFrom Map.empty events"

section \<open>PoliceEvent.parseData: type, title and description (js/app.js)\<close>

definition typeMap :: "(jsstring \<times> jsstring) list" where
  "typeMap =
     [(js ''St'' @ ouml @ js ''ld/inbrott'', js ''Inbrott''),
      (js ''Trafikolycka'', js ''Trafikbrott''),
      (js ''R'' @ aring @ js ''n/st'' @ ouml @ js ''ld'', js ''R'' @ aring @ js ''n''),
      (js ''V'' @ aring @ js ''ld'', js ''Misshandel'')]"

text \<open>
  \<open>typeMap[type] || type\<close>; the property key is the string form of \<open>type\<close>. A
  type that names a member of \<open>Object.prototype\<close> gives that member, an object with
  the member's text.
\<close>

definition normalizeEventType :: "jsval \<Rightarrow> jsval" where
  "normalizeEventType ty =
     (case map_of typeMap (toStr ty) of
        Some t \<Rightarrow> JStr t
      | None \<Rightarrow>
          if toStr ty \<in> set objectPrototypeKeys then JObject (memberText (toStr ty)) else ty)"

definition parsedType :: "raw_event \<Rightarrow> jsval" where
  "parsedType raw = normalizeEventType (js_or (r_type raw) (JStr unknownEventTitle))"

definition parsedTitle :: "raw_event \<Rightarrow> jsstring" where
  "parsedTitle raw = sanitizeHTML (js_or (r_name raw) (js_or (r_title raw) (parsedType raw)))"

definition parsedDescription :: "raw_event \<Rightarrow> jsstring" where
  "parsedDescription raw =
     sanitizeHTML (js_or (r_summary raw) (js_or (r_description raw) (JStr [])))"

section \<open>CrimeSeveritySystem.getSeverityInfo (js/app.js)\<close>

record crime_severity =
  cs_level :: nat
  cs_color :: string
  cs_description :: jsstring
  cs_priority :: string
  matchType :: "string option"

definition crimeEntry ::
    "jsstring \<Rightarrow> nat \<Rightarrow> string \<Rightarrow> jsstring \<Rightarrow> string \<Rightarrow> jsstring \<times> crime_severity" where
  "crimeEntry key lv col descr prio =
     (key, \<lparr>cs_level = lv, cs_color = col, cs_description = descr, cs_priority = prio,
            matchType = None\<rparr>)"

definition SEVERITY_MAPPING :: "(jsstring \<times> crime_severity) list" where
  "SEVERITY_MAPPING =
     [crimeEntry (js ''Trafikbrott'') 1 ''#059669'' (js ''Trafikbrott'') ''low'',
      crimeEntry (js ''Fortk'' @ ouml @ js ''rning'') 1 ''#059669''
        (js ''Fortk'' @ ouml @ js ''rning'') ''low'',
      crimeEntry (js ''Parkering'') 1 ''#22c55e'' (js ''Parkeringsbrott'') ''low'',
      crimeEntry (js ''Ordningslagen'') 1 ''#22c55e'' (js ''Ordningslagen'') ''low'',
      crimeEntry (js ''Skadeg'' @ ouml @ js ''relse'') 2 ''#f59e0b''
        (js ''Skadeg'' @ ouml @ js ''relse'') ''medium'',
      crimeEntry (js ''St'' @ ouml @ js ''ld'') 2 ''#f97316'' (js ''St'' @ ouml @ js ''ld'') ''medium'',
      crimeEntry (js ''Snatteri'') 2 ''#f97316'' (js ''Snatteri'') ''medium'',
      crimeEntry (js ''Bedr'' @ auml @ js ''geri'') 2 ''#ea580c''
        (js ''Bedr'' @ auml @ js ''geri'') ''medium'',
      crimeEntry (js ''Inbrott'') 3 ''#dc2626'' (js ''Inbrott'') ''high'',
      crimeEntry (js ''Narkotikabrott'') 3 ''#dc2626'' (js ''Narkotikabrott'') ''high'',
      crimeEntry (js ''Rattfylleri'') 3 ''#dc2626'' (js ''Rattfylleri'') ''high'',
      crimeEntry (js ''Rattonykterhet'') 3 ''#dc2626'' (js ''Rattonykterhet'') ''high'',
      crimeEntry (js ''R'' @ aring @ js ''n'') 4 ''#991b1b'' (js ''R'' @ aring @ js ''n'') ''critical'',
      crimeEntry (js ''Misshandel'') 4 ''#991b1b'' (js ''Misshandel'') ''critical'',
      crimeEntry (js ''V'' @ aring @ js ''ldt'' @ auml @ js ''kt'') 5 ''#7f1d1d''
        (js ''V'' @ aring @ js ''ldt'' @ auml @ js ''kt'') ''critical'',
      crimeEntry (js ''V'' @ aring @ js ''ld mot tj'' @ auml @ js ''nsteman'') 4 ''#991b1b''
        (js ''V'' @ aring @ js ''ld mot tj'' @ auml @ js ''nsteman'') ''critical'',
      crimeEntry (js ''Olaga hot'') 3 ''#dc2626'' (js ''Olaga hot'') ''high'',
      crimeEntry (js ''Mord'') 5 ''#7f1d1d'' (js ''Mord'') ''critical'',
      crimeEntry (js ''Dr'' @ aring @ js ''p'') 5 ''#7f1d1d'' (js ''Dr'' @ aring @ js ''p'') ''critical'',
      crimeEntry (js ''Mordbrand'') 5 ''#7f1d1d'' (js ''Mordbrand'') ''critical'',
      crimeEntry (js ''Brand'') 4 ''#991b1b'' (js ''Brand'') ''critical'',
      crimeEntry (Ouml @ js ''vrigt'') 2 ''#6b7280'' (Ouml @ js ''vrigt'') ''medium'']"

text \<open>\<open>this.SEVERITY_MAPPING[key]\<close> for a key of the literal.\<close>

definition mapping :: "jsstring \<Rightarrow> crime_severity" where
  "mapping key =
     (case map_of SEVERITY_MAPPING key of
        Some v \<Rightarrow> v
      | None \<Rightarrow> \<lparr>cs_level = 0, cs_color = [], cs_description = [], cs_priority = [],
                  matchType = None\<rparr>)"

definition crimeKeywords :: "(jsstring \<times> crime_severity) list" where
  "crimeKeywords =
     [(js ''st'' @ ouml @ js ''ld'', mapping (js ''St'' @ ouml @ js ''ld'')),
      (js ''stol'', mapping (js ''St'' @ ouml @ js ''ld'')),
      (js ''inbrott'', mapping (js ''Inbrott'')),
      (js ''r'' @ aring @ js ''n'', mapping (js ''R'' @ aring @ js ''n'')),
      (js ''misshandel'', mapping (js ''Misshandel'')),
      (js ''v'' @ aring @ js ''ld'', mapping (js ''Misshandel'')),
      (js ''narkotika'', mapping (js ''Narkotikabrott'')),
      (js ''trafik'', mapping (js ''Trafikbrott'')),
      (js ''brand'', mapping (js ''Brand'')),
      (js ''fylleri'', mapping (js ''Rattfylleri''))]"

datatype crime_lookup = CrimeEntry crime_severity | CrimeInherited jsstring

text \<open>
  \<open>getSeverityInfo\<close>: the exact entry, else the first entry whose key holds the type
  or is held by it (letter case aside), else the first keyword held by the type, else
  the default entry. There is no list of critical keywords here.
\<close>

definition getSeverityInfo :: "jsval \<Rightarrow> error + crime_lookup" where
  "getSeverityInfo crimeType =
     (if \<not> truthy crimeType then Inr (CrimeEntry (mapping (Ouml @ js ''vrigt'')))
      else
        (case map_of SEVERITY_MAPPING (toStr crimeType) of
           Some v \<Rightarrow> Inr (CrimeEntry v)
         | None \<Rightarrow>
             if toStr crimeType \<in> set objectPrototypeKeys
             then Inr (CrimeInherited (toStr crimeType))
             else
               (case crimeType of
                  JStr ct \<Rightarrow>
                    (let lowerType = toLowerCase ct in
                     case find (\<lambda>kv. includes_str lowerType (toLowerCase (fst kv))
                                      \<or> includes_str (toLowerCase (fst kv)) lowerType)
                            SEVERITY_MAPPING of
                       Some kv \<Rightarrow> Inr (CrimeEntry ((snd kv)\<lparr>matchType := Some ''fuzzy''\<rparr>))
                     | None \<Rightarrow>
                         (case find (\<lambda>kv. includes_str lowerType (fst kv)) crimeKeywords of
                            Some kv \<Rightarrow>
                              Inr (CrimeEntry ((snd kv)\<lparr>matchType := Some ''keyword''\<rparr>))
                          | None \<Rightarrow>
                              Inr (CrimeEntry
                                     ((mapping (Ouml @ js ''vrigt''))
                                        \<lparr>matchType := Some ''default''\<rparr>))))
                | _ \<Rightarrow> Inl TypeError)))"

definition getSeverityLevel :: "jsval \<Rightarrow> error + nat option" where
  "getSeverityLevel crimeType =
     map_sum id (\<lambda>r. case r of CrimeEntry v \<Rightarrow> Some (cs_level v) | CrimeInherited m \<Rightarrow> None)
       (getSeverityInfo crimeType)"

section \<open>Persistent storage (DataStorage, js/app.js)\<close>

text \<open>
  \<open>saveEvents\<close> copies the fields of an event, adds \<open>severityLevel\<close> and stamps
  \<open>cached\<close> with the time of the write.
\<close>

record stored_event = event +
  severityLevel :: "nat option"
  cached :: int

text \<open>
  A station as \<open>syncStations\<close> builds it (address, phone, email and services are
  copies and left out); \<open>rs_lat\<close> and \<open>rs_lng\<close> stand for
  \<open>station.location?.lat\<close> and \<open>station.location?.lng\<close>.
\<close>

record raw_station =
  rs_id :: jsval
  rs_name :: jsval
  rs_lat :: jsval
  rs_lng :: jsval

record station =
  st_id :: jsval
  st_name :: jsval
  st_lat :: jsval
  st_lng :: jsval
  lastUpdated :: int

record stored_station = station +
  st_cached :: int

text \<open>
  An object store is keyed by \<open>id\<close>; \<open>getAll\<close> and a cursor give its records in key
  order, so a store is the list of its records in that order. The settings store is
  never swept nor read below and is left out.
\<close>

record data_storage =
  eventsStore :: "stored_event list"
  stationsStore :: "stored_station list"

definition CACHE_DURATION_EVENTS :: int where
  "CACHE_DURATION_EVENTS = 2 * 60 * 60 * 1000"

definition CACHE_DURATION_STATIONS :: int where
  "CACHE_DURATION_STATIONS = 24 * 60 * 60 * 1000"

text \<open>
  \<open>Array.prototype.sort\<close> with a consistent comparator, one that orders the values
  by a number each of them carries: the sort is stable, so its result is that of a stable
  insertion sort. \<open>after x y\<close> says that the comparator is positive on \<open>(x, y)\<close>, so
  that \<open>x\<close> goes behind \<open>y\<close>.
\<close>

fun insertBy :: "('a \<Rightarrow> 'a \<Rightarrow> bool) \<Rightarrow> 'a \<Rightarrow> 'a list \<Rightarrow> 'a list" where
  "insertBy after x [] = [x]"
| "insertBy after x (y # ys) = (if after x y then y # insertBy after x ys else x # y # ys)"

definition jsSort :: "('a \<Rightarrow> 'a \<Rightarrow> bool) \<Rightarrow> 'a list \<Rightarrow> 'a list" where
  "jsSort after xs = foldr (insertBy after) xs []"

text \<open>\<open>(a, b) => b.timeMs - a.timeMs\<close> on records whose \<open>timeMs\<close> are numbers.\<close>

definition newerFirst :: "('a event_scheme) \<Rightarrow> ('a event_scheme) \<Rightarrow> bool" where
  "newerFirst a b =
     (case (timeMs a, timeMs b) of (Some ta, Some tb) \<Rightarrow> tb - ta > 0 | _ \<Rightarrow> False)"

text \<open>
  \<open>events.sort((a, b) => b.timeMs - a.timeMs)\<close>. On a record whose \<open>timeMs\<close> is
  NaN the comparator yields NaN and is no longer consistent: the order of the result is
  then the engine's own. \<open>engineSort\<close> stands for it, a rearrangement of the list that
  the surroundings give.
\<close>

definition sortByTime ::
    "(stored_event list \<Rightarrow> stored_event list) \<Rightarrow> stored_event list \<Rightarrow> stored_event list" where
  "sortByTime engineSort events =
     (if list_all (\<lambda>e. timeMs e \<noteq> None) events then jsSort newerFirst events
      else engineSort events)"

text \<open>
  \<open>getEvents\<close> with its \<open>maxAge\<close> and \<open>limit\<close>; the optional filters on severity,
  city and exact location are \<open>null\<close> wherever the code below calls it.
\<close>

record get_options =
  maxAge :: int
  limit :: nat

definition defaultGetOptions :: get_options where
  "defaultGetOptions = \<lparr>maxAge = CACHE_DURATION_EVENTS, limit = 1000\<rparr>"

definition getEvents ::
    "(stored_event list \<Rightarrow> stored_event list) \<Rightarrow> int \<Rightarrow> get_options \<Rightarrow> data_storage
       \<Rightarrow> stored_event list" where
  "getEvents engineSort now options db =
     (let cutoff = now - maxAge options in
      take (limit options)
        (sortByTime engineSort (filter (\<lambda>e. \<not> cached e < cutoff) (eventsStore db))))"

definition getStations :: "int \<Rightarrow> int \<Rightarrow> data_storage \<Rightarrow> stored_station list" where
  "getStations now maxAge' db =
     (let cutoff = now - maxAge' in filter (\<lambda>s. st_cached s \<ge> cutoff) (stationsStore db))"

text \<open>
  Keys: numbers sort before strings, numbers by value, strings by code unit. Any other
  value here is no valid key, and \<open>put\<close> raises a DataError on it.
\<close>

fun strLess :: "jsstring \<Rightarrow> jsstring \<Rightarrow> bool" where
  "strLess [] [] = False"
| "strLess [] (y # ys) = True"
| "strLess (x # xs) [] = False"
| "strLess (x # xs) (y # ys) =
     (x < y \<or> (x = y \<and> strLess xs ys))"

fun keyLess :: "jsval \<Rightarrow> jsval \<Rightarrow> bool" where
  "keyLess (JNum a) (JNum b) = (a < b)"
| "keyLess (JNum a) (JStr t) = True"
| "keyLess (JStr s) (JStr t) = strLess s t"
| "keyLess a b = False"

fun validKey :: "jsval \<Rightarrow> bool" where
  "validKey (JNum n) = True"
| "validKey (JStr s) = True"
| "validKey v = False"

text \<open>\<open>store.put(r)\<close>: replace the record with the same key, or insert in key order.\<close>

fun storePut :: "('a \<Rightarrow> jsval) \<Rightarrow> 'a \<Rightarrow> 'a list \<Rightarrow> 'a list" where
  "storePut key r [] = [r]"
| "storePut key r (x # xs) =
     (if key x = key r then r # xs
      else if keyLess (key r) (key x) then r # x # xs
      else x # storePut key r xs)"

definition severityLevelOf :: "sev_lookup \<Rightarrow> nat option" where
  "severityLevelOf info = (case info of SevEntry s \<Rightarrow> Some (level s) | Inherited m \<Rightarrow> None)"

definition toStored :: "int \<Rightarrow> event \<Rightarrow> stored_event" where
  "toStored now e =
     event.extend e
       (stored_event.fields (severityLevelOf (severityInfo e)) now)"

text \<open>
  \<open>put\<close> first clones the record, and a function cannot be cloned: a record whose
  \<open>severityInfo\<close> is a built-in function raises a DataCloneError. The member
  \<open>__proto__\<close> is an object without enumerable fields, which can.
\<close>

definition cloneable :: "sev_lookup \<Rightarrow> bool" where
  "cloneable info = (case info of SevEntry s \<Rightarrow> True | Inherited m \<Rightarrow> m = js ''__proto__'')"

text \<open>
  \<open>saveEvents\<close>: one \<open>put\<close> per event, in order. A \<open>put\<close> that raises rejects the
  promise and leaves the earlier ones in the transaction. \<open>writeFails\<close> says that the
  transaction itself fails (its \<open>onerror\<close>): then nothing is written.
\<close>

fun putEvents :: "int \<Rightarrow> event list \<Rightarrow> stored_event list \<Rightarrow> error option \<times> stored_event list" where
  "putEvents now [] store = (None, store)"
| "putEvents now (e # es) store =
     (if \<not> cloneable (severityInfo e) then (Some DataCloneError, store)
      else if validKey (ev_id e) then putEvents now es (storePut ev_id (toStored now e) store)
      else (Some DataError, store))"

definition saveEvents :: "bool \<Rightarrow> int \<Rightarrow> event list \<Rightarrow> data_storage \<Rightarrow> error option \<times> data_storage" where
  "saveEvents writeFails now events db =
     (if writeFails then (Some StorageError, db)
      else (case putEvents now events (eventsStore db) of
              (r, store) \<Rightarrow> (r, db\<lparr>eventsStore := store\<rparr>)))"

definition toStoredStation :: "int \<Rightarrow> station \<Rightarrow> stored_station" where
  "toStoredStation now st = station.extend st (stored_station.fields now)"

fun putStations :: "int \<Rightarrow> station list \<Rightarrow> stored_station list \<Rightarrow> error option \<times> stored_station list" where
  "putStations now [] store = (None, store)"
| "putStations now (st # sts) store =
     (if validKey (st_id st) then putStations now sts (storePut st_id (toStoredStation now st) store)
      else (Some DataError, store))"

definition saveStations :: "bool \<Rightarrow> int \<Rightarrow> station list \<Rightarrow> data_storage \<Rightarrow> error option \<times> data_storage" where
  "saveStations writeFails now stations db =
     (if writeFails then (Some StorageError, db)
      else (case putStations now stations (stationsStore db) of
              (r, store) \<Rightarrow> (r, db\<lparr>stationsStore := store\<rparr>)))"




section \<open>The synchronisation manager (DataSyncManager)\<close>

datatype sync_type = Events | Stations | RSS | Other string

record sync_config =
  interval :: int
  passiveInterval :: int
  deltaSync :: bool
  cfg_priority :: string

definition eventsConfig :: sync_config where
  "eventsConfig =
     \<lparr>interval = 5 * 60 * 1000, passiveInterval = 15 * 60 * 1000, deltaSync = True,
      cfg_priority = ''high''\<rparr>"

definition stationsConfig :: sync_config where
  "stationsConfig =
     \<lparr>interval = 6 * 60 * 60 * 1000, passiveInterval = 24 * 60 * 60 * 1000, deltaSync = False,
      cfg_priority = ''low''\<rparr>"

definition rssConfig :: sync_config where
  "rssConfig =
     \<lparr>interval = 10 * 60 * 1000, passiveInterval = 30 * 60 * 1000, deltaSync = True,
      cfg_priority = ''medium''\<rparr>"

text \<open>\<open>this.syncConfig[type]\<close>; \<open>undefined\<close> for any other type.\<close>

fun syncConfig :: "sync_type \<Rightarrow> sync_config option" where
  "syncConfig Events = Some eventsConfig"
| "syncConfig Stations = Some stationsConfig"
| "syncConfig RSS = Some rssConfig"
| "syncConfig (Other t) = None"

record retry_config =
  maxRetries :: nat
  baseDelay :: int
  maxDelay :: int

definition retryConfig :: retry_config where
  "retryConfig = \<lparr>maxRetries = 3, baseDelay = 1000, maxDelay = 30000\<rparr>"

text \<open>The options of a sync; \<open>retry\<close>, which nothing reads, is left out.\<close>

record sync_options =
  opt_priority :: string
  showLoader :: bool
  force :: bool

text \<open>A pending \<open>setTimeout\<close> of \<open>scheduleRetry\<close>.\<close>

record retry_timer =
  rt_delay :: int
  rt_type :: sync_type
  rt_options :: sync_options
  rt_attempt :: nat

record rss_item =
  rss_id :: jsstring
  rss_title :: jsstring
  rss_description :: jsstring
  pubDate :: int
  rss_source :: string

text \<open>What a sync hands to its caller: fresh records, or records read from the store.\<close>

datatype item =
    EventItem event
  | StoredEventItem stored_event
  | StationItem station
  | StoredStationItem stored_station
  | RssItem rss_item

text \<open>
  The manager's fields, \<open>document.hidden\<close>, the storage (\<open>None\<close> when
  \<open>typeof DataStorage === 'undefined'\<close>), the loading indicator, and the log of the
  requests sent to the network: one entry for a call of \<open>Utils.fetchWithRetry\<close>
  (which tries up to three times) and one for each \<open>fetch\<close> of an RSS source.
\<close>

record sync_state =
  isOnline :: bool
  hidden :: bool
  lastSyncTimestamps :: "sync_type \<rightharpoonup> int"
  syncIntervals :: "sync_type \<rightharpoonup> int"
  retryTimers :: "retry_timer list"
  storage :: "data_storage option"
  netCalls :: "string list"
  loading :: bool

text \<open>
  What \<open>Utils.fetchWithRetry\<close> followed by \<open>Utils.safeJsonParse\<close> comes to: the
  request failed on every attempt, the body was no JSON, the JSON was no array, or an
  array of items arrived.
\<close>

datatype 'a fetched = FetchFailed | InvalidJson | NotArray | JsonArray "'a list"

text \<open>
  The surroundings of one call: the clock (\<open>Date.now()\<close>, read once), what the network
  answers, what each RSS source parses to (\<open>[]\<close> when its request fails), whether
  the storage transactions fail, and the order the engine gives to a list that it sorts
  with an inconsistent comparator.
\<close>

record sync_env =
  now :: int
  eventsResponse :: "raw_event fetched"
  stationsResponse :: "raw_station fetched"
  rssResponses :: "nat \<Rightarrow> rss_item list"
  writeFails :: bool
  readFails :: bool
  engineSort :: "stored_event list \<Rightarrow> stored_event list"

definition API_EVENTS :: string where
  "API_EVENTS = ''https://polisen.se/api/events''"

definition API_STATIONS :: string where
  "API_STATIONS = ''https://polisen.se/api/policestations''"

definition RSS_SOURCES :: "string list" where
  "RSS_SOURCES =
     [''https://polisen.se/aktuellt/rss/'',
      ''https://api.allorigins.win/get?url=https%3A%2F%2Fpolisen.se%2Faktuellt%2Frss%2F'',
      ''https://polisen.se/aktuellt/handelser/rss/'']"

fun mapResult :: "('a \<Rightarrow> error + 'b) \<Rightarrow> 'a list \<Rightarrow> error + 'b list" where
  "mapResult f [] = Inr []"
| "mapResult f (x # xs) =
     (case f x of
        Inl e \<Rightarrow> Inl e
      | Inr y \<Rightarrow> (case mapResult f xs of Inl e \<Rightarrow> Inl e | Inr ys \<Rightarrow> Inr (y # ys)))"

text \<open>\<open>syncEvents\<close>: the delta filter, the processing and the deduplication.\<close>

definition syncEvents :: "int \<Rightarrow> raw_event fetched \<Rightarrow> error + event list" where
  "syncEvents sinceTimestamp response =
     (case response of
        FetchFailed \<Rightarrow> Inl NetworkError
      | InvalidJson \<Rightarrow> Inl ParseError
      | NotArray \<Rightarrow> Inl FormatError
      | JsonArray rawEvents \<Rightarrow>
          (let filteredEvents =
                 (if sinceTimestamp > 0
                  then filter (\<lambda>ev. case r_datetimeMs ev of
                                        None \<Rightarrow> False
                                      | Some eventTime \<Rightarrow> eventTime > sinceTimestamp) rawEvents
                  else rawEvents)
           in case mapResult processEventData filteredEvents of
                Inl e \<Rightarrow> Inl e
              | Inr processedEvents \<Rightarrow> Inr (deduplicateEvents processedEvents)))"

definition processStation :: "int \<Rightarrow> raw_station \<Rightarrow> error + station" where
  "processStation now' rs =
     (if \<not> truthy (rs_id rs) then Inl TypeError
      else Inr \<lparr>st_id = rs_id rs, st_name = rs_name rs,
                st_lat = js_or (rs_lat rs) (JNum 0), st_lng = js_or (rs_lng rs) (JNum 0),
                lastUpdated = now'\<rparr>)"

definition syncStations :: "int \<Rightarrow> raw_station fetched \<Rightarrow> error + station list" where
  "syncStations now' response =
     (case response of
        FetchFailed \<Rightarrow> Inl NetworkError
      | InvalidJson \<Rightarrow> Inl ParseError
      | NotArray \<Rightarrow> Inl FormatError
      | JsonArray rawStations \<Rightarrow> mapResult (processStation now') rawStations)"

definition syncRSSFeeds :: "(nat \<Rightarrow> rss_item list) \<Rightarrow> rss_item list" where
  "syncRSSFeeds responses = concat (map responses [0 ..< length RSS_SOURCES])"

text \<open>\<open>getCachedData\<close>: the read of the store, with \<open>[]\<close> for every failure.\<close>

definition getCachedData :: "sync_env \<Rightarrow> sync_type \<Rightarrow> sync_state \<Rightarrow> item list" where
  "getCachedData env ty s =
     (case storage s of
        None \<Rightarrow> []
      | Some db \<Rightarrow>
          (case ty of
             Events \<Rightarrow>
               if readFails env then []
               else map StoredEventItem (getEvents (engineSort env) (now env) defaultGetOptions db)
           | Stations \<Rightarrow>
               if readFails env then []
               else map StoredStationItem (getStations (now env) CACHE_DURATION_STATIONS db)
           | _ \<Rightarrow> []))"

text \<open>
  \<open>saveDataWithMetadata\<close>: the \<open>syncMetadata\<close> it adds is dropped by
  \<open>saveEvents\<close>, which copies named fields only, and is left out of a stored station.
  The result is the error it rethrows, if any.
\<close>

definition eventsOf :: "item list \<Rightarrow> event list" where
  "eventsOf items = concat (map (\<lambda>i. case i of EventItem e \<Rightarrow> [e] | _ \<Rightarrow> []) items)"

definition stationsOf :: "item list \<Rightarrow> station list" where
  "stationsOf items = concat (map (\<lambda>i. case i of StationItem st \<Rightarrow> [st] | _ \<Rightarrow> []) items)"

definition saveDataWithMetadata ::
    "sync_env \<Rightarrow> sync_type \<Rightarrow> item list \<Rightarrow> sync_state \<Rightarrow> error option \<times> sync_state" where
  "saveDataWithMetadata env ty data s =
     (case storage s of
        None \<Rightarrow> (None, s)
      | Some db \<Rightarrow>
          (case ty of
             Events \<Rightarrow>
               (case saveEvents (writeFails env) (now env) (eventsOf data) db of
                  (r, db') \<Rightarrow> (r, s\<lparr>storage := Some db'\<rparr>))
           | Stations \<Rightarrow>
               (case saveStations (writeFails env) (now env) (stationsOf data) db of
                  (r, db') \<Rightarrow> (r, s\<lparr>storage := Some db'\<rparr>))
           | _ \<Rightarrow> (None, s)))"

text \<open>\<open>scheduleRetry(type, options, attempt = 1)\<close>\<close>

text \<open>
  \<open>Math.min(baseDelay * Math.pow(2, attempt - 1), maxDelay)\<close>; for attempt 0 the power
  is one half.
\<close>

definition retryDelay :: "nat \<Rightarrow> int" where
  "retryDelay attempt =
     min (if attempt = 0 then baseDelay retryConfig div 2
          else baseDelay retryConfig * 2 ^ (attempt - 1))
       (maxDelay retryConfig)"

definition scheduleRetry :: "sync_type \<Rightarrow> sync_options \<Rightarrow> nat \<Rightarrow> sync_state \<Rightarrow> sync_state" where
  "scheduleRetry ty options attempt s =
     (if attempt > maxRetries retryConfig then s
      else s\<lparr>retryTimers := retryTimers s @
                [\<lparr>rt_delay = retryDelay attempt, rt_type = ty, rt_options = options,
                  rt_attempt = attempt\<rparr>]\<rparr>)"

text \<open>The \<open>switch\<close> of \<open>syncDataType\<close>, with the requests it sends.\<close>

definition fetchData ::
    "sync_env \<Rightarrow> sync_type \<Rightarrow> int \<Rightarrow> sync_state \<Rightarrow> (error + item list) \<times> sync_state" where
  "fetchData env ty lastSync s =
     (case ty of
        Events \<Rightarrow>
          (map_sum id (map EventItem)
             (syncEvents (if deltaSync eventsConfig then lastSync else 0) (eventsResponse env)),
           s\<lparr>netCalls := netCalls s @ [API_EVENTS]\<rparr>)
      | Stations \<Rightarrow>
          (map_sum id (map StationItem) (syncStations (now env) (stationsResponse env)),
           s\<lparr>netCalls := netCalls s @ [API_STATIONS]\<rparr>)
      | RSS \<Rightarrow>
          (Inr (map RssItem (syncRSSFeeds (rssResponses env))),
           s\<lparr>netCalls := netCalls s @ RSS_SOURCES\<rparr>)
      | Other t \<Rightarrow> (Inl UnknownType, s))"

text \<open>The \<open>catch\<close> and \<open>finally\<close> blocks of \<open>syncDataType\<close>.\<close>

definition hideLoader :: "sync_options \<Rightarrow> sync_state \<Rightarrow> sync_state" where
  "hideLoader options s = (if showLoader options then s\<lparr>loading := False\<rparr> else s)"

definition syncFailed ::
    "sync_env \<Rightarrow> sync_type \<Rightarrow> sync_options \<Rightarrow> sync_state \<Rightarrow> (error + item list) \<times> sync_state" where
  "syncFailed env ty options s =
     (let s' = scheduleRetry ty options 1 s
      in (Inr (getCachedData env ty s'), hideLoader options s'))"

text \<open>
  The body of \<open>syncDataType\<close> from the loading indicator on: the \<open>try\<close> block
  sets the timestamp before it saves, and every error of the fetch and of the save ends
  in the \<open>catch\<close> block.
\<close>

definition performSync ::
    "sync_env \<Rightarrow> sync_type \<Rightarrow> sync_options \<Rightarrow> int \<Rightarrow> sync_state \<Rightarrow> (error + item list) \<times> sync_state" where
  "performSync env ty options lastSync s =
     (let s1 = (if showLoader options then s\<lparr>loading := True\<rparr> else s)
      in case fetchData env ty lastSync s1 of
           (Inl e, s2) \<Rightarrow> syncFailed env ty options s2
         | (Inr data, s2) \<Rightarrow>
             (let s3 = s2\<lparr>lastSyncTimestamps := (lastSyncTimestamps s2)(ty \<mapsto> now env)\<rparr>
              in case saveDataWithMetadata env ty data s3 of
                   (Some e, s4) \<Rightarrow> syncFailed env ty options s4
                 | (None, s4) \<Rightarrow> (Inr data, hideLoader options s4)))"

text \<open>\<open>this.lastSyncTimestamps.get(type) || 0\<close>\<close>

definition lastSyncOf :: "sync_state \<Rightarrow> sync_type \<Rightarrow> int" where
  "lastSyncOf s ty = (case lastSyncTimestamps s ty of None \<Rightarrow> 0 | Some t \<Rightarrow> t)"

text \<open>
  \<open>syncDataType(type, options)\<close>. It raises only when it reads \<open>config.interval\<close>
  of a type that has no configuration.
\<close>

definition syncDataType ::
    "sync_env \<Rightarrow> sync_type \<Rightarrow> sync_options \<Rightarrow> sync_state \<Rightarrow> (error + item list) \<times> sync_state" where
  "syncDataType env ty options s =
     (if \<not> isOnline s \<and> \<not> force options then (Inr (getCachedData env ty s), s)
      else
        (case syncConfig ty of
           None \<Rightarrow>
             if \<not> force options then (Inl TypeError, s)
             else performSync env ty options (lastSyncOf s ty) s
         | Some config \<Rightarrow>
             if \<not> force options \<and> now env - lastSyncOf s ty < interval config
             then (Inr (getCachedData env ty s), s)
             else performSync env ty options (lastSyncOf s ty) s))"

text \<open>
  The callback of a retry timer: \<open>syncDataType\<close> again with the same options, and
  \<open>scheduleRetry\<close> with the next attempt number only when that call raises.
\<close>

definition fireRetry :: "sync_env \<Rightarrow> retry_timer \<Rightarrow> sync_state \<Rightarrow> sync_state" where
  "fireRetry env t s =
     (case syncDataType env (rt_type t) (rt_options t) s of
        (Inl e, s') \<Rightarrow> scheduleRetry (rt_type t) (rt_options t) (rt_attempt t + 1) s'
      | (Inr data, s') \<Rightarrow> s')"

text \<open>
  The pending retry timers firing one after the other, the oldest first, each in its own
  surroundings; the result lists the timers that fired.
\<close>

fun fireRetries :: "sync_env list \<Rightarrow> sync_state \<Rightarrow> retry_timer list \<times> sync_state" where
  "fireRetries [] s = ([], s)"
| "fireRetries (env # envs) s =
     (case retryTimers s of
        [] \<Rightarrow> ([], s)
      | t # ts \<Rightarrow>
          (case fireRetries envs (fireRetry env t (s\<lparr>retryTimers := ts\<rparr>)) of
             (fired, s') \<Rightarrow> (t # fired, s')))"

text \<open>
  \<open>schedulePeriodicSync\<close>: the period of a type's timer follows the visibility of the
  page. The timer's tick syncs without \<open>force\<close> when online.
\<close>

definition effectiveInterval :: "bool \<Rightarrow> sync_config \<Rightarrow> int" where
  "effectiveInterval hidden' config = (if hidden' then passiveInterval config else interval config)"

definition schedulePeriodicSync :: "sync_type \<Rightarrow> sync_state \<Rightarrow> sync_state" where
  "schedulePeriodicSync ty s =
     (case syncConfig ty of
        None \<Rightarrow> s
      | Some config \<Rightarrow>
          s\<lparr>syncIntervals := (syncIntervals s)(ty \<mapsto> effectiveInterval (hidden s) config)\<rparr>)"

definition periodicTick :: "sync_env \<Rightarrow> sync_type \<Rightarrow> sync_state \<Rightarrow> sync_state" where
  "periodicTick env ty s =
     (if isOnline s
      then snd (syncDataType env ty
                  \<lparr>opt_priority = (case syncConfig ty of None \<Rightarrow> [] | Some c \<Rightarrow> cfg_priority c),
                   showLoader = False, force = False\<rparr> s)
      else s)"

section \<open>The service worker's network-first strategy (sw.js)\<close>

text \<open>
  A response with its headers as a map from (lower-case) names to values; a GET request
  with its URL and its \<open>accept\<close> header. A cache maps the URL of a request to the
  response stored for it. URLs and header values are byte strings, and the bodies are
  only handed on: they are character lists.
\<close>

record response =
  status :: nat
  statusText :: string
  headers :: "string \<rightharpoonup> string"
  body :: string

record request =
  url :: string
  accept :: "string option"

text \<open>
  A cache holds at most one response per URL; \<open>keys()\<close> lists the URLs in the order
  of their insertion, and \<open>put\<close> replaces the entry of its URL.
\<close>

type_synonym cache = "(string \<times> response) list"

definition cacheMatch :: "cache \<Rightarrow> string \<Rightarrow> response option" where
  "cacheMatch c u = map_of c u"

definition cachePut :: "string \<Rightarrow> response \<Rightarrow> cache \<Rightarrow> cache" where
  "cachePut u r c = filter (\<lambda>entry. fst entry \<noteq> u) c @ [(u, r)]"

record sw_state =
  staticCache :: cache
  dataCache :: cache

text \<open>
  The surroundings of one request: the clock, the answer of \<open>fetch\<close> (\<open>None\<close> when
  it rejects) and \<open>navigator.onLine\<close>.
\<close>

record sw_env =
  sw_now :: int
  network :: "response option"
  onLine :: bool

definition API_ENDPOINTS :: "string list" where
  "API_ENDPOINTS = [''polisen.se/api/'', ''allorigins.win/get'']"

definition API_DATA :: int where
  "API_DATA = 30 * 60 * 1000"

definition STATIC :: int where
  "STATIC = 7 * 24 * 60 * 60 * 1000"

definition isApiRequest :: "string \<Rightarrow> bool" where
  "isApiRequest u = list_ex (\<lambda>endpoint. includes_str u endpoint) API_ENDPOINTS"

text \<open>
  \<open>parseInt(s)\<close>: leading white space, a sign, then the longest run of digits, in base
  16 after \<open>0x\<close> and in base 10 otherwise; \<open>None\<close> is NaN.
\<close>

definition digitVal :: "char \<Rightarrow> int option" where
  "digitVal c =
     (let n = (of_char c :: int) in if 48 \<le> n \<and> n \<le> 57 then Some (n - 48) else None)"

definition hexVal :: "char \<Rightarrow> int option" where
  "hexVal c =
     (let n = (of_char c :: int) in
      if 48 \<le> n \<and> n \<le> 57 then Some (n - 48)
      else if 65 \<le> n \<and> n \<le> 70 then Some (n - 55)
      else if 97 \<le> n \<and> n \<le> 102 then Some (n - 87)
      else None)"

fun parseDigits :: "int \<Rightarrow> (char \<Rightarrow> int option) \<Rightarrow> string \<Rightarrow> int option \<Rightarrow> int option" where
  "parseDigits radix val [] acc = acc"
| "parseDigits radix val (c # cs) acc =
     (case val c of
        None \<Rightarrow> acc
      | Some d \<Rightarrow>
          parseDigits radix val cs
            (Some (radix * (case acc of None \<Rightarrow> 0 | Some a \<Rightarrow> a) + d)))"

definition parseInt :: "string \<Rightarrow> int option" where
  "parseInt str =
     (let s = dropWhile (\<lambda>c. isWhitespace (codeUnit c)) str;
          negative = startsWith s ''-'';
          s1 = (if startsWith s ''-'' \<or> startsWith s ''+'' then drop 1 s else s);
          hex = (startsWith s1 ''0x'' \<or> startsWith s1 ''0X'');
          digits = (if hex then parseDigits 16 hexVal (drop 2 s1) None
                    else parseDigits 10 digitVal s1 None)
      in case digits of
           None \<Rightarrow> None
         | Some n \<Rightarrow> Some (if negative then - n else n))"

text \<open>\<open>createOfflineHTML\<close>: the page, cut after its first line.\<close>

definition createOfflineHTML :: string where
  "createOfflineHTML = ''<!DOCTYPE html>''"

text \<open>
  \<open>createOfflineFallback\<close>. \<open>request.headers.get('accept')\<close> is \<open>null\<close> for a
  request without the header, and \<open>.includes\<close> on it raises.
\<close>

definition createOfflineFallback :: "request \<Rightarrow> error + response" where
  "createOfflineFallback req =
     (if isApiRequest (url req)
      then Inr \<lparr>status = 200, statusText = ''OK (Offline)'',
                headers = [''content-type'' \<mapsto> ''application/json'',
                           ''sw-cache-status'' \<mapsto> ''offline-fallback''],
                body = ''[]''\<rparr>
      else (case accept req of
              None \<Rightarrow> Inl TypeError
            | Some a \<Rightarrow>
                if includes_str a ''text/html''
                then Inr \<lparr>status = 200, statusText = ''OK (Offline)'',
                          headers = [''content-type'' \<mapsto> ''text/html'',
                                     ''sw-cache-status'' \<mapsto> ''offline-fallback''],
                          body = createOfflineHTML\<rparr>
                else Inr \<lparr>status = 503, statusText = ''Service Unavailable (Offline)'',
                          headers = [''sw-cache-status'' \<mapsto> ''offline-fallback''],
                          body = ''Offline - Inneh'' @ [CHR 0xE5] @ ''ll ej tillg''
                                   @ [CHR 0xE4] @ ''ngligt''\<rparr>))"

text \<open>
  The \<open>catch\<close> block of \<open>networkFirstStrategy\<close>: the cached response, labelled by
  the age that its own \<open>sw-cache-timestamp\<close> header gives
  (\<open>parseInt(headers.get(..) || '0')\<close>; a comparison with NaN is false), or the
  fallback.
\<close>

definition cacheTimestampOf :: "response \<Rightarrow> int option" where
  "cacheTimestampOf r =
     parseInt (case headers r ''sw-cache-timestamp'' of
                 None \<Rightarrow> ''0''
               | Some h \<Rightarrow> if h = [] then ''0'' else h)"

definition networkFailed :: "sw_env \<Rightarrow> request \<Rightarrow> sw_state \<Rightarrow> (error + response) \<times> sw_state" where
  "networkFailed env req s =
     (case cacheMatch (dataCache s) (url req) of
        Some cachedResponse \<Rightarrow>
          (let label = (case cacheTimestampOf cachedResponse of
                          None \<Rightarrow> ''cache-fresh''
                        | Some cacheTimestamp \<Rightarrow>
                            if sw_now env - cacheTimestamp > API_DATA then ''cache-stale''
                            else ''cache-fresh'')
           in (Inr (cachedResponse\<lparr>headers := (headers cachedResponse)(''sw-cache-status'' \<mapsto> label)\<rparr>),
               s))
      | None \<Rightarrow> (createOfflineFallback req, s))"

text \<open>
  \<open>networkFirstStrategy\<close>: on a 200 the response is put in the cache as it came
  (\<open>cache.put(request, responseClone)\<close>), and the copy handed back gets the two
  \<open>sw-cache\<close> headers.
\<close>

definition networkFirstStrategy :: "sw_env \<Rightarrow> request \<Rightarrow> sw_state \<Rightarrow> (error + response) \<times> sw_state" where
  "networkFirstStrategy env req s =
     (case network env of
        None \<Rightarrow> networkFailed env req s
      | Some networkResponse \<Rightarrow>
          if status networkResponse = 200
          then (Inr (networkResponse\<lparr>headers :=
                       (headers networkResponse)
                         (''sw-cache-status'' \<mapsto> ''network-fresh'',
                          ''sw-cache-timestamp'' \<mapsto> intToString (sw_now env))\<rparr>),
                s\<lparr>dataCache := cachePut (url req) networkResponse (dataCache s)\<rparr>)
          else networkFailed env req s)"

text \<open>
  \<open>cacheFirstStrategy\<close>, the strategy of every other request. It stamps the
  response it puts in the cache with \<open>sw-cache-timestamp\<close>. A \<open>fetch\<close> that
  rejects ends in the \<open>catch\<close> block, which answers with the fallback.
\<close>

definition relabel :: "string \<Rightarrow> response \<Rightarrow> response" where
  "relabel label r = r\<lparr>headers := (headers r)(''sw-cache-status'' \<mapsto> label)\<rparr>"

definition cacheFirstNetwork ::
    "sw_env \<Rightarrow> request \<Rightarrow> response option \<Rightarrow> sw_state \<Rightarrow> (error + response) \<times> sw_state" where
  "cacheFirstNetwork env req cachedResponse s =
     (case network env of
        None \<Rightarrow> (createOfflineFallback req, s)
      | Some networkResponse \<Rightarrow>
          if status networkResponse = 200
          then (Inr (relabel ''network-fresh'' networkResponse),
                s\<lparr>staticCache :=
                     cachePut (url req)
                       (networkResponse\<lparr>headers :=
                          (headers networkResponse)
                            (''sw-cache-timestamp'' \<mapsto> intToString (sw_now env))\<rparr>)
                       (staticCache s)\<rparr>)
          else
            (case cachedResponse of
               Some c \<Rightarrow> (Inr (relabel ''cache-fallback'' c), s)
             | None \<Rightarrow> (createOfflineFallback req, s)))"

definition cacheFirstStrategy :: "sw_env \<Rightarrow> request \<Rightarrow> sw_state \<Rightarrow> (error + response) \<times> sw_state" where
  "cacheFirstStrategy env req s =
     (case cacheMatch (staticCache s) (url req) of
        None \<Rightarrow> cacheFirstNetwork env req None s
      | Some cachedResponse \<Rightarrow>
          if (case cacheTimestampOf cachedResponse of
                None \<Rightarrow> False
              | Some cacheTimestamp \<Rightarrow> sw_now env - cacheTimestamp < STATIC)
             \<or> \<not> onLine env
          then (Inr (relabel ''cache-hit'' cachedResponse), s)
          else cacheFirstNetwork env req (Some cachedResponse) s)"

text \<open>
  \<open>cleanupExpiredCaches\<close>: every entry of the data cache whose age, by its
  \<open>sw-cache-timestamp\<close> header, is above seven days is deleted.
\<close>

fun expire :: "int \<Rightarrow> cache \<Rightarrow> nat \<times> cache" where
  "expire t [] = (0, [])"
| "expire t ((u, r) # entries) =
     (case expire t entries of
        (cleanedCount, kept) \<Rightarrow>
          (case cacheTimestampOf r of
             None \<Rightarrow> (cleanedCount, (u, r) # kept)
           | Some timestamp' \<Rightarrow>
               if t - timestamp' > 7 * 24 * 60 * 60 * 1000 then (Suc cleanedCount, kept)
               else (cleanedCount, (u, r) # kept)))"

definition cleanupExpiredCaches :: "int \<Rightarrow> sw_state \<Rightarrow> nat \<times> sw_state" where
  "cleanupExpiredCaches t s =
     (case expire t (dataCache s) of (cleanedCount, kept) \<Rightarrow> (cleanedCount, s\<lparr>dataCache := kept\<rparr>))"

text \<open>
  \<open>syncPoliceData\<close>, the background sync: each API URL is fetched, and an answer
  that is \<open>ok\<close> is put in the data cache with its \<open>sw-cache-timestamp\<close>.
\<close>

definition apiUrls :: "string list" where
  "apiUrls = [''https://polisen.se/api/events'', ''https://polisen.se/api/policestations'']"

definition responseOk :: "response \<Rightarrow> bool" where
  "responseOk r = (200 \<le> status r \<and> status r \<le> 299)"

fun syncUrls :: "int \<Rightarrow> (string \<Rightarrow> response option) \<Rightarrow> string list \<Rightarrow> cache \<Rightarrow> cache" where
  "syncUrls t answers [] c = c"
| "syncUrls t answers (u # us) c =
     syncUrls t answers us
       (case answers u of
          None \<Rightarrow> c
        | Some r \<Rightarrow>
            if responseOk r
            then cachePut u
                   (r\<lparr>headers := (headers r)(''sw-cache-timestamp'' \<mapsto> intToString t)\<rparr>) c
            else c)"

definition syncPoliceData :: "int \<Rightarrow> (string \<Rightarrow> response option) \<Rightarrow> sw_state \<Rightarrow> sw_state" where
  "syncPoliceData t answers s = s\<lparr>dataCache := syncUrls t answers apiUrls (dataCache s)\<rparr>"

section \<open>PoliceEventsApp.fetchPoliceEvents (js/app.js)\<close>

text \<open>
  A \<open>PoliceEvent\<close> with the fields read below. Its constructor parses dates and
  coordinates with the platform's functions and a random offset; the two parameters
  stand for \<open>parseDateTime\<close> (which can raise, and otherwise always ends with a time)
  and for the outcome of \<open>validateData\<close>. The severity is that of the normalised
  type.
\<close>

record police_event =
  pe_type :: jsval
  pe_title :: jsstring
  pe_description :: jsstring
  pe_severityInfo :: crime_lookup
  pe_timeMs :: int
  isValid :: bool

definition newPoliceEvent ::
    "(raw_event \<Rightarrow> error + int) \<Rightarrow> (raw_event \<Rightarrow> bool) \<Rightarrow> raw_event \<Rightarrow> error + police_event" where
  "newPoliceEvent parseDateTime validateData raw =
     (case parseDateTime raw of
        Inl e \<Rightarrow> Inl e
      | Inr t \<Rightarrow>
          (case getSeverityInfo (parsedType raw) of
             Inl e \<Rightarrow> Inl e
           | Inr info \<Rightarrow>
               Inr \<lparr>pe_type = parsedType raw, pe_title = parsedTitle raw,
                    pe_description = parsedDescription raw, pe_severityInfo = info,
                    pe_timeMs = t, isValid = validateData raw\<rparr>))"

text \<open>\<open>(a, b) => b.timeMs - a.timeMs\<close> on police events.\<close>

definition laterFirst :: "police_event \<Rightarrow> police_event \<Rightarrow> bool" where
  "laterFirst a b = (pe_timeMs b - pe_timeMs a > 0)"

definition fetchPoliceEvents ::
    "(raw_event \<Rightarrow> error + int) \<Rightarrow> (raw_event \<Rightarrow> bool) \<Rightarrow> raw_event fetched
       \<Rightarrow> error + police_event list" where
  "fetchPoliceEvents parseDateTime validateData response =
     (case response of
        FetchFailed \<Rightarrow> Inl NetworkError
      | InvalidJson \<Rightarrow> Inl ParseError
      | NotArray \<Rightarrow> Inl FormatError
      | JsonArray rawData \<Rightarrow>
          (case mapResult (newPoliceEvent parseDateTime validateData) rawData of
             Inl e \<Rightarrow> Inl e
           | Inr events \<Rightarrow> Inr (take 500 (jsSort laterFirst (filter isValid events)))))"

section \<open>Example data\<close>

text \<open>Two items of the events feed, the older one first.\<close>

definition rawOlder :: raw_event where
  "rawOlder =
     \<lparr>r_id = JNum 101, r_datetime = JStr (js ''2024-01-01 09:00:00 +00:00''),
      r_datetimeMs = Some 1704099600000, r_name = JStr (js ''Trafikolycka, Lund''),
      r_title = JUndefined, r_summary = JStr (js ''Tva bilar''), r_description = JUndefined,
      r_type = JStr (js ''Trafikolycka''),
      r_location = Some \<lparr>loc_name = JStr (js ''Lund''), gps = JStr (js ''55.70,13.19'')\<rparr>\<rparr>"

definition rawNewer :: raw_event where
  "rawNewer =
     \<lparr>r_id = JNum 102, r_datetime = JStr (js ''2024-01-01 11:30:00 +00:00''),
      r_datetimeMs = Some 1704108600000, r_name = JStr (js ''Brand, Umea''),
      r_title = JUndefined, r_summary = JStr (js ''Brand i villa''), r_description = JUndefined,
      r_type = JStr (js ''Brand''),
      r_location = Some \<lparr>loc_name = JStr (js ''Umea''), gps = JStr (js ''63.82,20.26'')\<rparr>\<rparr>"

definition eventOlder :: event where
  "eventOlder =
     \<lparr>ev_id = JNum 101, timestamp = JStr (js ''2024-01-01 09:00:00 +00:00''),
      timeMs = Some 1704099600000, title = JStr (js ''Trafikolycka, Lund''),
      description = JStr (js ''Tva bilar''), ev_type = JStr (js ''Trafikolycka''),
      lat = JStr (js ''55.70''), lng = JStr (js ''13.19''), exactLocation = True,
      severityInfo = SevEntry \<lparr>level = 2, priority = ''medium'', color = ''#ea580c''\<rparr>\<rparr>"

definition eventNewer :: event where
  "eventNewer =
     \<lparr>ev_id = JNum 102, timestamp = JStr (js ''2024-01-01 11:30:00 +00:00''),
      timeMs = Some 1704108600000, title = JStr (js ''Brand, Umea''),
      description = JStr (js ''Brand i villa''), ev_type = JStr (js ''Brand''),
      lat = JStr (js ''63.82''), lng = JStr (js ''20.26''), exactLocation = True,
      severityInfo = SevEntry \<lparr>level = 4, priority = ''critical'', color = ''#b91c1c''\<rparr>\<rparr>"

text \<open>
  Two items whose dates and names differ and whose joined texts are the same,
  \<open>2024-01-01-12-Brand-0-0\<close>, with the events made of them.
\<close>

definition rawHyphenA :: raw_event where
  "rawHyphenA =
     \<lparr>r_id = JNum 201, r_datetime = JStr (js ''2024-01-01''),
      r_datetimeMs = Some 1704067200000, r_name = JStr (js ''12-Brand''),
      r_title = JUndefined, r_summary = JStr (js ''Brand i villa''), r_description = JUndefined,
      r_type = JStr (js ''Brand''), r_location = None\<rparr>"

definition rawHyphenB :: raw_event where
  "rawHyphenB =
     \<lparr>r_id = JNum 202, r_datetime = JStr (js ''2024-01-01-12''),
      r_datetimeMs = None, r_name = JStr (js ''Brand''),
      r_title = JUndefined, r_summary = JStr (js ''Brand i lada''), r_description = JUndefined,
      r_type = JStr (js ''Brand''), r_location = None\<rparr>"

definition eventHyphenA :: event where
  "eventHyphenA =
     \<lparr>ev_id = JNum 201, timestamp = JStr (js ''2024-01-01''),
      timeMs = Some 1704067200000, title = JStr (js ''12-Brand''),
      description = JStr (js ''Brand i villa''), ev_type = JStr (js ''Brand''),
      lat = JNum 0, lng = JNum 0, exactLocation = False,
      severityInfo = SevEntry \<lparr>level = 4, priority = ''critical'', color = ''#b91c1c''\<rparr>\<rparr>"

definition eventHyphenB :: event where
  "eventHyphenB =
     \<lparr>ev_id = JNum 202, timestamp = JStr (js ''2024-01-01-12''),
      timeMs = None, title = JStr (js ''Brand''),
      description = JStr (js ''Brand i lada''), ev_type = JStr (js ''Brand''),
      lat = JNum 0, lng = JNum 0, exactLocation = False,
      severityInfo = SevEntry \<lparr>level = 4, priority = ''critical'', color = ''#b91c1c''\<rparr>\<rparr>"

text \<open>The same events as stored at 09:00 and at 11:30 on 2024-01-01 (UTC).\<close>

definition storedOlder :: stored_event where
  "storedOlder = toStored 1704099600000 eventOlder"

definition storedNewer :: stored_event where
  "storedNewer = toStored 1704108600000 eventNewer"

definition exampleOptions :: sync_options where
  "exampleOptions = \<lparr>opt_priority = ''normal'', showLoader = False, force = False\<rparr>"

text \<open>A manager with both events in its store; the events were last synced at 11:50.\<close>

definition exampleState :: sync_state where
  "exampleState =
     \<lparr>isOnline = True, hidden = False,
      lastSyncTimestamps = [Events \<mapsto> 1704109800000],
      syncIntervals = Map.empty, retryTimers = [],
      storage = Some \<lparr>eventsStore = [storedOlder, storedNewer], stationsStore = []\<rparr>,
      netCalls = [], loading = False\<rparr>"




text \<open>Noon of the same day: the feed answers with both items, the storage works.\<close>

definition exampleEnv :: sync_env where
  "exampleEnv =
     \<lparr>now = 1704110400000, eventsResponse = JsonArray [rawOlder, rawNewer],
      stationsResponse = JsonArray [], rssResponses = (\<lambda>i. []),
      writeFails = False, readFails = False, engineSort = (\<lambda>events. events)\<rparr>"

text \<open>
  A manager that last synced the events at 11:00 and holds the older event only; at noon
  the feed answers and the write to the store fails. The retry fires a second later,
  with a working store.
\<close>

definition staleState :: sync_state where
  "staleState =
     exampleState\<lparr>lastSyncTimestamps := [Events \<mapsto> 1704106800000],
                  storage := Some \<lparr>eventsStore = [storedOlder], stationsStore = []\<rparr>\<rparr>"

definition failedSave :: "(error + item list) \<times> sync_state" where
  "failedSave = syncDataType (exampleEnv\<lparr>writeFails := True\<rparr>) Events exampleOptions staleState"

definition afterFailedSave :: "retry_timer list \<times> sync_state" where
  "afterFailedSave = fireRetries [exampleEnv\<lparr>now := 1704110401000\<rparr>] (snd failedSave)"

text \<open>
  A manager that never synced, and a network that fails from noon on: the first sync,
  then four retry timers firing, the first a second after noon.
\<close>

definition failingEnv :: "int \<Rightarrow> sync_env" where
  "failingEnv t = exampleEnv\<lparr>now := t, eventsResponse := FetchFailed\<rparr>"

definition firstFailure :: "(error + item list) \<times> sync_state" where
  "firstFailure =
     syncDataType (failingEnv 1704110400000) Events exampleOptions
       (exampleState\<lparr>lastSyncTimestamps := Map.empty\<rparr>)"

definition laterFailures :: "retry_timer list \<times> sync_state" where
  "laterFailures =
     fireRetries
       [failingEnv 1704110401000, failingEnv 1704110402000, failingEnv 1704110403000,
        failingEnv 1704110404000]
       (snd firstFailure)"





text \<open>
  The service worker: a request for the events at noon, answered by the network, and
  the same request one minute later with the network down.
\<close>

definition eventsRequest :: request where
  "eventsRequest = \<lparr>url = ''https://polisen.se/api/events'', accept = Some ''application/json''\<rparr>"

definition eventsAnswer :: response where
  "eventsAnswer =
     \<lparr>status = 200, statusText = ''OK'',
      headers = [''content-type'' \<mapsto> ''application/json''], body = ''[101, 102]''\<rparr>"

definition firstRequest :: "(error + response) \<times> sw_state" where
  "firstRequest =
     networkFirstStrategy
       \<lparr>sw_now = 1704110400000, network = Some eventsAnswer, onLine = True\<rparr>
       eventsRequest \<lparr>staticCache = [], dataCache = []\<rparr>"

definition secondRequest :: "(error + response) \<times> sw_state" where
  "secondRequest =
     networkFirstStrategy \<lparr>sw_now = 1704110460000, network = None, onLine = False\<rparr>
       eventsRequest (snd firstRequest)"

text \<open>Stand-ins for the platform-dependent parts of the \<open>PoliceEvent\<close> constructor.\<close>

definition exampleParseDateTime :: "raw_event \<Rightarrow> error + int" where
  "exampleParseDateTime raw =
     (case r_datetimeMs raw of None \<Rightarrow> Inr 1704110400000 | Some t \<Rightarrow> Inr t)"

definition exampleValidate :: "raw_event \<Rightarrow> bool" where
  "exampleValidate raw = (r_location raw \<noteq> None)"

definition policeOlder :: police_event where
  "policeOlder =
     \<lparr>pe_type = JStr (js ''Trafikbrott''), pe_title = js ''Trafikolycka, Lund'',
      pe_description = js ''Tva bilar'', pe_severityInfo = CrimeEntry (mapping (js ''Trafikbrott'')),
      pe_timeMs = 1704099600000, isValid = True\<rparr>"

definition policeNewer :: police_event where
  "policeNewer =
     \<lparr>pe_type = JStr (js ''Brand''), pe_title = js ''Brand, Umea'',
      pe_description = js ''Brand i villa'', pe_severityInfo = CrimeEntry (mapping (js ''Brand'')),
      pe_timeMs = 1704108600000, isValid = True\<rparr>"

text \<open>The same answer fetched for a page asset through the cache-first strategy.\<close>

definition assetRequest :: request where
  "assetRequest = \<lparr>url = ''https://example.org/js/app.js'', accept = Some ''*/*''\<rparr>"

definition assetFetched :: "(error + response) \<times> sw_state" where
  "assetFetched =
     cacheFirstStrategy
       \<lparr>sw_now = 1704110400000, network = Some eventsAnswer, onLine = True\<rparr>
       assetRequest \<lparr>staticCache = [], dataCache = []\<rparr>"

text \<open>
  A data cache filled by two background syncs: the events eight days before noon of
  2024-01-01, the stations at 11:30 of that day.
\<close>

definition syncedCache :: sw_state where
  "syncedCache =
     syncPoliceData 1704108600000
       (\<lambda>u. if u = ''https://polisen.se/api/policestations'' then Some eventsAnswer else None)
       (syncPoliceData 1703419200000
          (\<lambda>u. if u = ''https://polisen.se/api/events'' then Some eventsAnswer else None)
          \<lparr>staticCache = [], dataCache = []\<rparr>)"

section \<open>Sorting\<close>

lemma set_insertBy: "set (insertBy after x ys) = insert x (set ys)"
  by (induction ys) auto


lemma length_insertBy: "length (insertBy after x ys) = Suc (length ys)"
  by (induction ys) auto

lemma length_jsSort: "length (jsSort after xs) = length xs"
  by (induction xs) (simp_all add: jsSort_def length_insertBy)

lemma sorted_wrt_take:
  "sorted_wrt P xs \<Longrightarrow> sorted_wrt P (take n xs)"
proof (induction xs arbitrary: n)
  case Nil
  then show ?case by simp
next
  case (Cons x xs)
  show ?case
  proof (cases n)
    case 0
    then show ?thesis by simp
  next
    case (Suc m)
    have "set (take m xs) \<subseteq> set xs" by (rule set_take_subset)
    with Cons Suc show ?thesis by auto
  qed
qed




section \<open>Properties of sanitising, classification and deduplication\<close>

lemma stripAngles_free: "codeUnit CHR ''<'' \<notin> set (stripAngles s) \<and> codeUnit CHR ''>'' \<notin> set (stripAngles s)"
  by (simp add: stripAngles_def)

lemma sanitizeHTML_free: "codeUnit CHR ''<'' \<notin> set (sanitizeHTML v) \<and> codeUnit CHR ''>'' \<notin> set (sanitizeHTML v)"
  by (simp add: sanitizeHTML_def stripAngles_free)

text \<open>
  Claim C10. Whatever it is given, \<open>Utils.sanitizeHTML\<close> returns a string with neither
  \<open><\<close> nor \<open>>\<close>; on \<open>null\<close>, \<open>undefined\<close> and the empty string it returns the
  empty string; so the title and the description \<open>PoliceEvent.parseData\<close> assigns hold
  neither character.
\<close>

theorem sanitizeHTML_no_markup:
  "codeUnit CHR ''<'' \<notin> set (sanitizeHTML v) \<and> codeUnit CHR ''>'' \<notin> set (sanitizeHTML v)
   \<and> sanitizeHTML JNull = [] \<and> sanitizeHTML JUndefined = [] \<and> sanitizeHTML (JStr []) = []
   \<and> codeUnit CHR ''<'' \<notin> set (parsedTitle raw) \<and> codeUnit CHR ''>'' \<notin> set (parsedTitle raw)
   \<and> codeUnit CHR ''<'' \<notin> set (parsedDescription raw) \<and> codeUnit CHR ''>'' \<notin> set (parsedDescription raw)"
proof -
  have "sanitizeHTML JNull = [] \<and> sanitizeHTML JUndefined = [] \<and> sanitizeHTML (JStr []) = []"
    by (simp add: sanitizeHTML_def)
  then show ?thesis
    using sanitizeHTML_free by (simp add: parsedTitle_def parsedDescription_def)
qed

lemma dedupFrom_by_key:
  "filter (\<lambda>x. dedupKey x = k) (dedupFrom seen es) =
     (if seen k \<noteq> None then []
      else case find (\<lambda>x. dedupKey x = k) es of None \<Rightarrow> [] | Some f \<Rightarrow> [f])"
proof (induction es arbitrary: seen)
  case Nil
  show ?case by simp
next
  case (Cons e es)
  show ?case
  proof (cases "seen (dedupKey e) \<noteq> None")
    case True
    have "filter (\<lambda>x. dedupKey x = k) (dedupFrom seen es) =
            (if seen k \<noteq> None then []
             else case find (\<lambda>x. dedupKey x = k) es of None \<Rightarrow> [] | Some f \<Rightarrow> [f])"
      by (rule Cons.IH)
    with True show ?thesis by auto
  next
    case False
    let ?seen = "seen(dedupKey e \<mapsto> True)"
    have "filter (\<lambda>x. dedupKey x = k) (dedupFrom ?seen es) =
            (if ?seen k \<noteq> None then []
             else case find (\<lambda>x. dedupKey x = k) es of None \<Rightarrow> [] | Some f \<Rightarrow> [f])"
      by (rule Cons.IH)
    with False show ?thesis by (cases "dedupKey e = k") simp_all
  qed
qed

text \<open>
  Claim C4, as the code has it. The key of a record is the text
  \<open>`${timestamp}-${title}-${lat}-${lng}`\<close>: its four fields as strings, joined by
  hyphens. For every such text the output of \<open>deduplicateEvents\<close> holds exactly one
  record with it when the input has any: the first one in input order. Records with the
  same four fields have the same text, and so have some records whose fields differ.
\<close>

theorem deduplicateEvents_first_per_joined_text:
  "filter (\<lambda>x. toStr (timestamp x) @ js ''-'' @ toStr (title x) @ js ''-'' @ toStr (lat x)
                  @ js ''-'' @ toStr (lng x) = k)
     (deduplicateEvents events) =
   (case find (\<lambda>x. toStr (timestamp x) @ js ''-'' @ toStr (title x) @ js ''-'' @ toStr (lat x)
                       @ js ''-'' @ toStr (lng x) = k) events of
      None \<Rightarrow> []
    | Some f \<Rightarrow> [f])"
  using dedupFrom_by_key [of k Map.empty events]
  by (simp add: deduplicateEvents_def dedupKey_def compositeKey_def)

text \<open>
  The claim as written fails: two items of a feed whose timestamps and titles differ, so
  that neither key (timestamp, title, lat, lng) occurs twice, have the same joined text,
  and the second item is dropped.
\<close>

theorem deduplicateEvents_key_collision_counterexample:
  "timestamp eventHyphenA \<noteq> timestamp eventHyphenB
   \<and> title eventHyphenA \<noteq> title eventHyphenB
   \<and> mapResult processEventData [rawHyphenA, rawHyphenB] = Inr [eventHyphenA, eventHyphenB]
   \<and> deduplicateEvents [eventHyphenA, eventHyphenB] = [eventHyphenA]
   \<and> syncEvents 0 (JsonArray [rawHyphenA, rawHyphenB]) = Inr [eventHyphenA]"
  by code_simp

section \<open>Severity: the keyword override reads the title\<close>

lemma severityMap_levels: "list_all (\<lambda>kv. level (snd kv) \<le> level severityCritical) severityMap"
  by (simp add: severityMap_def severityCritical_def severityDefault_def)

lemma critical_hit:
  assumes "keyword \<in> set criticalKeywords" and "includes_str lowerTitle keyword"
  shows "list_ex (\<lambda>k. includes_str lowerTitle k) criticalKeywords"
  using assms by (auto simp: list_ex_iff)

text \<open>
  Claim C6, as the code has it. When the title (the feed's \<open>name\<close>) holds one of the
  critical keywords of the code in any letter case, \<open>calculateSeverity\<close> answers
  level 5 whatever the type is (a string, or absent); no entry of the table has a higher
  level. The type itself is never searched for keywords. The keywords are those of
  \<open>criticalKeywords\<close>: \<open>skott\<close>, \<open>livsfara\<close>, \<open>explosion\<close>, \<open>gisslan\<close> and the
  four units \<open>d\<close>, U+221A, U+2202, \<open>d\<close>.
\<close>

theorem calculateSeverity_title_keyword_override:
  assumes "keyword \<in> set criticalKeywords"
    and "includes_str (toLowerCase titleText) keyword"
  shows "calculateSeverity (JStr ty) (JStr titleText) = Inr (SevEntry severityCritical)
         \<and> calculateSeverity JUndefined (JStr titleText) = Inr (SevEntry severityCritical)
         \<and> level severityCritical = 5
         \<and> list_all (\<lambda>kv. level (snd kv) \<le> 5) severityMap"
proof -
  have hit: "list_ex (\<lambda>k. includes_str (toLowerCase titleText) k) criticalKeywords"
    using assms by (rule critical_hit)
  have five: "level severityCritical = 5"
    by (simp add: severityCritical_def)
  have "calculateSeverity (JStr ty) (JStr titleText) = Inr (SevEntry severityCritical)"
    using hit by (simp add: calculateSeverity_def defaultParam_def)
  moreover have "calculateSeverity JUndefined (JStr titleText) = Inr (SevEntry severityCritical)"
    using hit by (simp add: calculateSeverity_def defaultParam_def)
  ultimately show ?thesis
    using five severityMap_levels by simp
qed

theorem calculateSeverity_title_keyword_override_witness:
  "js ''skott'' \<in> set criticalKeywords
   \<and> includes_str (toLowerCase (js ''Skott mot bil'')) (js ''skott'')
   \<and> calculateSeverity (JStr (js ''Trafikolycka'')) (JStr (js ''Skott mot bil''))
       = Inr (SevEntry \<lparr>level = 5, priority = ''critical'', color = ''#450a0a''\<rparr>)
   \<and> severityLookup (js ''Trafikolycka'')
       = SevEntry \<lparr>level = 2, priority = ''medium'', color = ''#ea580c''\<rparr>"
proof -
  have h1: "js ''skott'' \<in> set criticalKeywords"
    by code_simp
  have h2: "includes_str (toLowerCase (js ''Skott mot bil'')) (js ''skott'')"
    by code_simp
  have h3: "severityLookup (js ''Trafikolycka'')
              = SevEntry \<lparr>level = 2, priority = ''medium'', color = ''#ea580c''\<rparr>"
    by code_simp
  show ?thesis
    using calculateSeverity_title_keyword_override [OF h1 h2, of "js ''Trafikolycka''"] h1 h2 h3
    by (simp add: severityCritical_def)
qed

text \<open>
  The claim as written fails: a record whose type holds \<open>skott\<close> and whose title holds
  no keyword gets the default entry, level 1; \<open>getSeverityInfo\<close> gives the same
  type, and the type \<open>Skottlossning\<close> itself, its default level 2.
\<close>

theorem calculateSeverity_type_keyword_counterexample:
  "includes_str (js ''misstankt skottlossning'') (js ''skott'')
   \<and> calculateSeverity (JStr (js ''misstankt skottlossning'')) (JStr (js ''Polisinsats i centrum''))
       = Inr (SevEntry \<lparr>level = 1, priority = ''low'', color = ''#6b7280''\<rparr>)
   \<and> map_sum id severityInfo
        (processEventData
           \<lparr>r_id = JNum 1, r_datetime = JStr (js ''2024-01-01T10:00:00Z''),
            r_datetimeMs = Some 1704103200000, r_name = JStr (js ''Polisinsats i centrum''),
            r_title = JUndefined, r_summary = JStr (js ''Sammanfattning''),
            r_description = JUndefined, r_type = JStr (js ''misstankt skottlossning''),
            r_location = None\<rparr>)
       = Inr (SevEntry \<lparr>level = 1, priority = ''low'', color = ''#6b7280''\<rparr>)
   \<and> getSeverityLevel (JStr (js ''misstankt skottlossning'')) = Inr (Some 2)
   \<and> getSeverityLevel (JStr (js ''Skottlossning'')) = Inr (Some 2)"
  by code_simp

text \<open>
  The second keyword of the list is not the Swedish word: a title that spells it with the
  letter U+00F6 holds no keyword, and the record keeps the level of its type.
\<close>

lemma calculateSeverity_damaged_keyword:
  "js ''d'' @ [0xF6] @ js ''d'' \<notin> set criticalKeywords
   \<and> calculateSeverity (JStr (js ''Olycka'')) (JStr (js ''Man d'' @ [0xF6] @ js ''d i olycka''))
       = Inr (SevEntry \<lparr>level = 3, priority = ''high'', color = ''#dc2626''\<rparr>)"
  by code_simp

text \<open>
  A type that names a member of \<open>Object.prototype\<close>: the sync manager takes the
  member for the severity, and the store refuses to clone it; \<open>PoliceEvent\<close> takes
  the member for the type, and \<open>getSeverityInfo\<close> raises on it.
\<close>

lemma prototype_member_type:
  "map_sum id severityInfo (processEventData (rawOlder\<lparr>r_type := JStr (js ''constructor'')\<rparr>))
     = Inr (Inherited (js ''constructor''))
   \<and> fst (saveEvents False 1704110400000
             [eventOlder\<lparr>severityInfo := Inherited (js ''constructor'')\<rparr>]
             \<lparr>eventsStore = [], stationsStore = []\<rparr>) = Some DataCloneError
   \<and> getSeverityInfo (normalizeEventType (JStr (js ''constructor''))) = Inl TypeError"
  by code_simp

section \<open>Skipping a sync: offline, or too recent\<close>








text \<open>
  Claim C2, as the code has it. Without \<open>force\<close>, when less than the type's configured
  \<open>interval\<close> (the one for the active mode, whatever the mode is) has passed since the
  last sync, \<open>syncDataType\<close> changes nothing: no request, the same store and timestamps;
  it returns the read of the store.
\<close>

theorem syncDataType_recent_skip:
  assumes "\<not> force options" and "syncConfig ty = Some config"
    and "now env - lastSyncOf s ty < interval config"
  shows "syncDataType env ty options s = (Inr (getCachedData env ty s), s)
         \<and> netCalls (snd (syncDataType env ty options s)) = netCalls s
         \<and> storage (snd (syncDataType env ty options s)) = storage s"
  using assms by (simp add: syncDataType_def)

theorem syncDataType_recent_skip_witness:
  "\<not> force exampleOptions \<and> syncConfig Events = Some eventsConfig
   \<and> now (exampleEnv\<lparr>now := 1704110000000\<rparr>) - lastSyncOf exampleState Events
       < interval eventsConfig
   \<and> syncDataType (exampleEnv\<lparr>now := 1704110000000\<rparr>) Events exampleOptions exampleState
       = (Inr [StoredEventItem storedNewer], exampleState)"
proof -
  have h1: "\<not> force exampleOptions"
    by (simp add: exampleOptions_def)
  have h2: "syncConfig Events = Some eventsConfig"
    by simp
  have h3: "now (exampleEnv\<lparr>now := 1704110000000\<rparr>) - lastSyncOf exampleState Events
              < interval eventsConfig"
    by code_simp
  have rd: "getCachedData (exampleEnv\<lparr>now := 1704110000000\<rparr>) Events exampleState
              = [StoredEventItem storedNewer]"
    by code_simp
  show ?thesis
    using syncDataType_recent_skip [OF h1 h2 h3] h1 h3 rd by simp
qed

text \<open>
  The claim as written fails for the interval in effect: with the page hidden the events
  timer runs every 15 minutes, and a sync ten minutes after the last one still goes to
  the network.
\<close>

theorem syncDataType_effective_interval_counterexample:
  "hidden (exampleState\<lparr>hidden := True\<rparr>) \<and> \<not> force exampleOptions
   \<and> now exampleEnv - lastSyncOf (exampleState\<lparr>hidden := True\<rparr>) Events
       < effectiveInterval (hidden (exampleState\<lparr>hidden := True\<rparr>)) eventsConfig
   \<and> netCalls (exampleState\<lparr>hidden := True\<rparr>) = []
   \<and> netCalls (snd (syncDataType exampleEnv Events exampleOptions
                      (exampleState\<lparr>hidden := True\<rparr>)))
       = [''https://polisen.se/api/events'']"
  by code_simp

section \<open>Timestamps and retries\<close>

lemma scheduleRetry_keeps:
  "lastSyncTimestamps (scheduleRetry ty options n s) = lastSyncTimestamps s"
  "storage (scheduleRetry ty options n s) = storage s"
  "netCalls (scheduleRetry ty options n s) = netCalls s"
  by (simp_all add: scheduleRetry_def)

lemma syncFailed_keeps:
  "lastSyncTimestamps (snd (syncFailed env ty options s)) = lastSyncTimestamps s"
  by (simp add: syncFailed_def hideLoader_def scheduleRetry_keeps Let_def)

lemma fetchData_keeps:
  "lastSyncTimestamps (snd (fetchData env ty lastSync s)) = lastSyncTimestamps s"
  by (cases ty) (simp_all add: fetchData_def)

lemma saveDataWithMetadata_keeps:
  "lastSyncTimestamps (snd (saveDataWithMetadata env ty data s)) = lastSyncTimestamps s"
  by (simp add: saveDataWithMetadata_def split: option.splits sync_type.splits prod.splits)

text \<open>A failed fetch leaves the timestamps as they were.\<close>

lemma performSync_fetch_failure:
  assumes "fst (fetchData env ty lastSync (if showLoader options then s\<lparr>loading := True\<rparr> else s)) = Inl e"
  shows "lastSyncTimestamps (snd (performSync env ty options lastSync s)) = lastSyncTimestamps s"
proof -
  let ?s1 = "if showLoader options then s\<lparr>loading := True\<rparr> else s"
  obtain r s2 where f: "fetchData env ty lastSync ?s1 = (r, s2)"
    by (cases "fetchData env ty lastSync ?s1")
  with assms have r: "r = Inl e" by simp
  have "lastSyncTimestamps s2 = lastSyncTimestamps ?s1"
    using fetchData_keeps [of env ty lastSync ?s1] f by simp
  then have "lastSyncTimestamps s2 = lastSyncTimestamps s" by simp
  then show ?thesis
    using f r by (simp add: performSync_def syncFailed_keeps)
qed

text \<open>A sync either leaves the timestamps or sets the one of its type to the clock.\<close>

lemma performSync_timestamps:
  "lastSyncTimestamps (snd (performSync env ty options lastSync s)) = lastSyncTimestamps s
   \<or> lastSyncTimestamps (snd (performSync env ty options lastSync s))
       = (lastSyncTimestamps s)(ty \<mapsto> now env)"
proof -
  let ?s1 = "if showLoader options then s\<lparr>loading := True\<rparr> else s"
  obtain r s2 where f: "fetchData env ty lastSync ?s1 = (r, s2)"
    by (cases "fetchData env ty lastSync ?s1")
  have k2: "lastSyncTimestamps s2 = lastSyncTimestamps s"
    using fetchData_keeps [of env ty lastSync ?s1] f by simp
  show ?thesis
  proof (cases r)
    case (Inl e)
    then show ?thesis using f k2 by (simp add: performSync_def syncFailed_keeps)
  next
    case (Inr data)
    let ?s3 = "s2\<lparr>lastSyncTimestamps := (lastSyncTimestamps s2)(ty \<mapsto> now env)\<rparr>"
    obtain w s4 where sv: "saveDataWithMetadata env ty data ?s3 = (w, s4)"
      by (cases "saveDataWithMetadata env ty data ?s3")
    have k4: "lastSyncTimestamps s4 = (lastSyncTimestamps s)(ty \<mapsto> now env)"
      using saveDataWithMetadata_keeps [of env ty data ?s3] sv k2 by simp
    show ?thesis
      using f Inr sv k4
      by (cases w) (simp_all add: performSync_def syncFailed_keeps hideLoader_def)
  qed
qed

lemma syncDataType_timestamps:
  "lastSyncTimestamps (snd (syncDataType env ty options s)) = lastSyncTimestamps s
   \<or> lastSyncTimestamps (snd (syncDataType env ty options s))
       = (lastSyncTimestamps s)(ty \<mapsto> now env)"
  using performSync_timestamps [of env ty options "lastSyncOf s ty" s]
  by (auto simp: syncDataType_def split: option.splits)

text \<open>With a clock that does not run backwards, no timestamp ever decreases.\<close>

lemma syncDataType_monotone:
  assumes "lastSyncOf s ty \<le> now env"
  shows "lastSyncOf s ty' \<le> lastSyncOf (snd (syncDataType env ty options s)) ty'"
  using syncDataType_timestamps [of env ty options s] assms
  by (auto simp: lastSyncOf_def)

text \<open>A save that fails after a fetch that worked leaves the timestamp at the clock.\<close>

lemma performSync_save_failure:
  assumes "fetchData env ty lastSync (if showLoader options then s\<lparr>loading := True\<rparr> else s)
             = (Inr data, s2)"
    and "fst (saveDataWithMetadata env ty data
                (s2\<lparr>lastSyncTimestamps := (lastSyncTimestamps s2)(ty \<mapsto> now env)\<rparr>)) = Some e"
  shows "lastSyncTimestamps (snd (performSync env ty options lastSync s)) ty = Some (now env)"
proof -
  let ?s3 = "s2\<lparr>lastSyncTimestamps := (lastSyncTimestamps s2)(ty \<mapsto> now env)\<rparr>"
  obtain w s4 where sv: "saveDataWithMetadata env ty data ?s3 = (w, s4)"
    by (cases "saveDataWithMetadata env ty data ?s3")
  with assms(2) have w: "w = Some e" by simp
  have "lastSyncTimestamps s4 = lastSyncTimestamps ?s3"
    using saveDataWithMetadata_keeps [of env ty data ?s3] sv by simp
  then have "lastSyncTimestamps s4 ty = Some (now env)" by simp
  then show ?thesis
    using assms(1) sv w by (simp add: performSync_def syncFailed_keeps)
qed

text \<open>
  Claim C3 on the code: a sync whose fetch succeeds and whose save fails. The attempt
  ends in the \<open>catch\<close> block (a retry is scheduled, the caller gets the read of the
  store, nothing was stored), yet the timestamp has moved from 11:00 to noon. The retry
  is then skipped as too recent, and the fetched event never reaches the store.
\<close>

theorem syncDataType_failed_save_moves_timestamp:
  "lastSyncTimestamps staleState Events = Some 1704106800000
   \<and> syncEvents 1704106800000 (eventsResponse exampleEnv) = Inr [eventNewer]
   \<and> netCalls (snd failedSave) = [''https://polisen.se/api/events'']
   \<and> fst failedSave = Inr []
   \<and> map rt_attempt (retryTimers (snd failedSave)) = [1]
   \<and> storage (snd failedSave) = storage staleState
   \<and> lastSyncTimestamps (snd failedSave) Events = Some 1704110400000
   \<and> netCalls (snd afterFailedSave) = netCalls (snd failedSave)
   \<and> storage (snd afterFailedSave) = storage staleState"
  by code_simp

text \<open>
  \<open>scheduleRetry\<close> taken alone: the delays of the attempts 1, 2 and 3, and nothing
  scheduled for attempt 4.
\<close>

lemma scheduleRetry_policy:
  "retryDelay 1 = 1000" "retryDelay 2 = 2000" "retryDelay 3 = 4000"
  "0 < n \<Longrightarrow> retryDelay n = min (1000 * 2 ^ (n - 1)) 30000"
  "retryDelay 0 = 500"
  "scheduleRetry ty options 4 s = s"
  by (simp_all add: retryDelay_def retryConfig_def scheduleRetry_def)

text \<open>
  For a configured type \<open>syncDataType\<close> never raises, so the callback of a retry
  timer never asks for the next attempt; and every timer that \<open>syncDataType\<close> adds
  is one of attempt 1.
\<close>

lemma performSync_returns: "\<exists>items. fst (performSync env ty options lastSync s) = Inr items"
  by (simp add: performSync_def syncFailed_def Let_def split: prod.splits sum.splits option.splits)

lemma syncDataType_returns:
  assumes "syncConfig ty = Some config"
  shows "\<exists>items. fst (syncDataType env ty options s) = Inr items"
  using assms performSync_returns [of env ty options "lastSyncOf s ty" s]
  by (simp add: syncDataType_def)

lemma fireRetry_same_attempt:
  assumes "syncConfig (rt_type t) = Some config"
  shows "fireRetry env t s = snd (syncDataType env (rt_type t) (rt_options t) s)"
proof -
  obtain items where "fst (syncDataType env (rt_type t) (rt_options t) s) = Inr items"
    using syncDataType_returns [OF assms] by blast
  then show ?thesis
    by (cases "syncDataType env (rt_type t) (rt_options t) s") (simp add: fireRetry_def)
qed

lemma syncFailed_timers:
  "retryTimers (snd (syncFailed env ty options s))
     = retryTimers s @ [\<lparr>rt_delay = 1000, rt_type = ty, rt_options = options, rt_attempt = 1\<rparr>]"
  by (simp add: syncFailed_def scheduleRetry_def hideLoader_def retryConfig_def retryDelay_def Let_def)

text \<open>
  Claim C5 on the code: five failures in a row. Every failure is caught inside
  \<open>syncDataType\<close>, which schedules attempt 1 again; the callback of the timer never
  sees an exception, so the attempt number never grows: every delay is 1000 ms, and a
  retry is still pending after the fifth failure.
\<close>

theorem scheduleRetry_attempt_never_advances:
  "map rt_delay (retryTimers (snd firstFailure)) = [1000]
   \<and> map rt_delay (fst laterFailures) = [1000, 1000, 1000, 1000]
   \<and> map rt_attempt (fst laterFailures) = [1, 1, 1, 1]
   \<and> map rt_delay (retryTimers (snd laterFailures)) = [1000]
   \<and> map rt_attempt (retryTimers (snd laterFailures)) = [1]
   \<and> length (netCalls (snd laterFailures)) = 5"
  by code_simp

section \<open>The retention sweep\<close>



text \<open>Every record is stamped with the clock of its write.\<close>

lemma storePut_stamps:
  "set (storePut key r xs) \<subseteq> insert r (set xs)"
  by (induction xs) auto

lemma putEvents_stamps:
  assumes "r \<in> set (snd (putEvents t es store))"
  shows "r \<in> set store \<or> cached r = t"
  using assms
proof (induction es arbitrary: store)
  case Nil
  then show ?case by simp
next
  case (Cons e es)
  show ?case
  proof (cases "cloneable (severityInfo e) \<and> validKey (ev_id e)")
    case True
    with Cons.prems have "r \<in> set (snd (putEvents t es (storePut ev_id (toStored t e) store)))"
      by simp
    then have "r \<in> set (storePut ev_id (toStored t e) store) \<or> cached r = t"
      by (rule Cons.IH)
    then show ?thesis
      using storePut_stamps [of ev_id "toStored t e" store]
      by (auto simp: toStored_def event.extend_def stored_event.fields_def)
  next
    case False
    with Cons.prems show ?thesis by (auto split: if_splits)
  qed
qed

lemma saveEvents_keeps_stamps:
  assumes "t \<noteq> 0" and "\<forall>r \<in> set (eventsStore db). cached r \<noteq> 0"
  shows "\<forall>r \<in> set (eventsStore (snd (saveEvents w t es db))). cached r \<noteq> 0"
proof (cases w)
  case True
  with assms(2) show ?thesis by (simp add: saveEvents_def)
next
  case False
  have "\<forall>r \<in> set (snd (putEvents t es (eventsStore db))). cached r \<noteq> 0"
    using putEvents_stamps [of _ t es "eventsStore db"] assms by auto
  with False show ?thesis
    by (simp add: saveEvents_def split: prod.splits)
qed




section \<open>Network-first: what a failed request is answered with\<close>

text \<open>
  When the network fails, a cached response is handed back whatever its age, with its
  status and body, labelled from its own timestamp header; without one, a request for an
  API endpoint gets the empty JSON array. The cache is left as it was.
\<close>

lemma networkFirstStrategy_failure_cached:
  assumes "network env = None \<or> (\<exists>r. network env = Some r \<and> status r \<noteq> 200)"
    and "cacheMatch (dataCache s) (url req) = Some c"
  shows "\<exists>label. networkFirstStrategy env req s
           = (Inr (c\<lparr>headers := (headers c)(''sw-cache-status'' \<mapsto> label)\<rparr>), s)
         \<and> (label = ''cache-stale'' \<or> label = ''cache-fresh'')
         \<and> (label = ''cache-stale'' \<longleftrightarrow>
              (\<exists>ts. cacheTimestampOf c = Some ts \<and> sw_now env - ts > 30 * 60 * 1000))"
  using assms
  by (auto simp: networkFirstStrategy_def networkFailed_def API_DATA_def Let_def
           split: option.splits)

lemma networkFirstStrategy_failure_fallback:
  assumes "network env = None \<or> (\<exists>r. network env = Some r \<and> status r \<noteq> 200)"
    and "cacheMatch (dataCache s) (url req) = None" and "isApiRequest (url req)"
  shows "\<exists>r. networkFirstStrategy env req s = (Inr r, s) \<and> status r = 200 \<and> body r = ''[]''"
  using assms
  by (auto simp: networkFirstStrategy_def networkFailed_def createOfflineFallback_def
           split: option.splits)

text \<open>
  An entry that \<open>networkFirstStrategy\<close> wrote for a response that came without the
  header is labelled stale at any later failure, however soon it comes.
\<close>

lemma cacheMatch_cachePut: "cacheMatch (cachePut u r c) u = Some r"
proof -
  have "map_of (filter (\<lambda>entry. fst entry \<noteq> u) c) u = None"
    by (induction c) auto
  then show ?thesis
    by (simp add: cacheMatch_def cachePut_def map_of_append map_add_def)
qed

lemma networkFirstStrategy_own_entry_stale:
  assumes "network env = Some r" and "status r = 200"
    and "headers r ''sw-cache-timestamp'' = None"
    and "network env' = None" and "sw_now env' > 30 * 60 * 1000"
  shows "\<exists>c. fst (networkFirstStrategy env' req (snd (networkFirstStrategy env req s))) = Inr c
             \<and> headers c ''sw-cache-status'' = Some ''cache-stale'' \<and> body c = body r"
proof -
  have zero: "parseInt ''0'' = Some 0"
    by code_simp
  have put: "cacheMatch (cachePut (url req) r (dataCache s)) (url req) = Some r"
    by (rule cacheMatch_cachePut)
  have ts: "cacheTimestampOf r = Some 0"
    using assms(3) zero by (simp add: cacheTimestampOf_def)
  show ?thesis
    using assms put ts
    by (simp add: networkFirstStrategy_def networkFailed_def API_DATA_def)
qed

text \<open>
  Claim C7 on the code: the response that \<open>networkFirstStrategy\<close> puts in the cache
  is the one that came from the network, without the \<open>sw-cache-timestamp\<close> header
  that only the returned copy gets. One minute later, with the network down, the entry
  is read as written at time 0 and labelled \<open>cache-stale\<close>, though its age is far
  below the 30 minutes.
\<close>

theorem networkFirstStrategy_fresh_entry_labelled_stale:
  "map_sum id (\<lambda>r. headers r ''sw-cache-status'') (fst firstRequest) = Inr (Some ''network-fresh'')
   \<and> map_sum id (\<lambda>r. headers r ''sw-cache-timestamp'') (fst firstRequest)
       = Inr (Some ''1704110400000'')
   \<and> map_option (\<lambda>r. headers r ''sw-cache-timestamp'')
        (cacheMatch (dataCache (snd firstRequest)) (url eventsRequest)) = Some None
   \<and> 1704110460000 - 1704110400000 \<le> API_DATA
   \<and> map_sum id body (fst secondRequest) = Inr ''[101, 102]''
   \<and> map_sum id (\<lambda>r. headers r ''sw-cache-status'') (fst secondRequest) = Inr (Some ''cache-stale'')"
  by code_simp

text \<open>The other writer of a cache does stamp its entries.\<close>

lemma cacheFirstStrategy_stamps:
  "map_option (\<lambda>r. headers r ''sw-cache-timestamp'')
     (cacheMatch (staticCache (snd assetFetched)) (url assetRequest))
     = Some (Some ''1704110400000'')"
  by code_simp

text \<open>
  The sweep of the data cache keeps an entry by the number in its header; of the two
  entries that the background sync stamped, it deletes the one of eight days at noon.
\<close>

lemma expire_kept:
  "snd (expire t c) =
     filter (\<lambda>entry. case cacheTimestampOf (snd entry) of
                        None \<Rightarrow> True
                      | Some ts \<Rightarrow> \<not> t - ts > 7 * 24 * 60 * 60 * 1000) c"
  by (induction c) (auto split: prod.splits option.splits)

lemma cleanupExpiredCaches_stamped:
  "map fst (dataCache syncedCache)
     = [''https://polisen.se/api/events'', ''https://polisen.se/api/policestations'']
   \<and> map fst (dataCache (snd (cleanupExpiredCaches 1704110400000 syncedCache)))
       = [''https://polisen.se/api/policestations'']"
  by code_simp

section \<open>The order and the number of the fetched events\<close>

lemma sorted_insertBy:
  assumes "sorted_wrt (\<lambda>a b. pe_timeMs a \<ge> pe_timeMs b) ys"
  shows "sorted_wrt (\<lambda>a b. pe_timeMs a \<ge> pe_timeMs b) (insertBy laterFirst x ys)"
  using assms
proof (induction ys)
  case Nil
  then show ?case by simp
next
  case (Cons y ys)
  show ?case
  proof (cases "laterFirst x y")
    case True
    then have "pe_timeMs y \<ge> pe_timeMs x"
      by (simp add: laterFirst_def)
    with Cons True show ?thesis
      by (auto simp: set_insertBy)
  next
    case False
    then have xy: "pe_timeMs x \<ge> pe_timeMs y"
      by (simp add: laterFirst_def)
    have "\<forall>z \<in> set ys. pe_timeMs y \<ge> pe_timeMs z"
      using Cons.prems by simp
    with xy have "\<forall>z \<in> set ys. pe_timeMs x \<ge> pe_timeMs z"
      by force
    with xy Cons.prems False show ?thesis by simp
  qed
qed

lemma sorted_jsSort: "sorted_wrt (\<lambda>a b. pe_timeMs a \<ge> pe_timeMs b) (jsSort laterFirst xs)"
  by (induction xs) (simp_all add: jsSort_def sorted_insertBy)

text \<open>
  Claim C8, as the code has it. What \<open>fetchPoliceEvents\<close> returns is in descending
  order of \<open>timeMs\<close> and holds at most 500 records. \<open>syncEvents\<close> returns the
  deduplicated records as they are, in the order of the feed.
\<close>

theorem fetchPoliceEvents_sorted_capped:
  assumes "fetchPoliceEvents parseDateTime validateData response = Inr events"
  shows "sorted_wrt (\<lambda>a b. pe_timeMs a \<ge> pe_timeMs b) events \<and> length events \<le> 500
         \<and> syncEvents 0 (JsonArray rawEvents)
             = (case mapResult processEventData rawEvents of
                  Inl e \<Rightarrow> Inl e
                | Inr processed \<Rightarrow> Inr (deduplicateEvents processed))"
proof -
  obtain rawData evs where
    ev: "events = take 500 (jsSort laterFirst (filter isValid evs))"
    using assms
    by (auto simp: fetchPoliceEvents_def split: fetched.splits sum.splits)
  have "sorted_wrt (\<lambda>a b. pe_timeMs a \<ge> pe_timeMs b) events"
    unfolding ev by (intro sorted_wrt_take sorted_jsSort)
  moreover have "length events \<le> 500"
    unfolding ev by simp
  moreover have "syncEvents 0 (JsonArray rawEvents)
             = (case mapResult processEventData rawEvents of
                  Inl e \<Rightarrow> Inl e
                | Inr processed \<Rightarrow> Inr (deduplicateEvents processed))"
    by (simp add: syncEvents_def)
  ultimately show ?thesis by simp
qed

theorem fetchPoliceEvents_sorted_capped_witness:
  "fetchPoliceEvents exampleParseDateTime exampleValidate (JsonArray [rawOlder, rawNewer])
     = Inr [policeNewer, policeOlder]
   \<and> sorted_wrt (\<lambda>a b. pe_timeMs a \<ge> pe_timeMs b) [policeNewer, policeOlder]
   \<and> length [policeNewer, policeOlder] \<le> 500"
proof -
  have run: "fetchPoliceEvents exampleParseDateTime exampleValidate
               (JsonArray [rawOlder, rawNewer]) = Inr [policeNewer, policeOlder]"
    by code_simp
  show ?thesis
    using fetchPoliceEvents_sorted_capped [OF run] run by simp
qed

text \<open>
  The claim as written fails for the sync manager: the same feed, synced for the first
  time, reaches the caller oldest first.
\<close>

theorem syncEvents_order_counterexample:
  "syncEvents 0 (JsonArray [rawOlder, rawNewer]) = Inr [eventOlder, eventNewer]
   \<and> timeMs eventOlder = Some 1704099600000 \<and> timeMs eventNewer = Some 1704108600000
   \<and> fst (syncDataType exampleEnv Events exampleOptions
            (exampleState\<lparr>lastSyncTimestamps := Map.empty\<rparr>))
       = Inr [EventItem eventOlder, EventItem eventNewer]"
  by code_simp

end
